theory Spec2Isabelle
  imports Complex_Main "HOL-Library.Log_Nat"
begin

section \<open>Data model\<close>

text \<open>
  The embedding follows \<^verbatim>\<open>database.py\<close> and \<^verbatim>\<open>models.py\<close>.

  Numbers. A Python \<^verbatim>\<open>int\<close> is an \<^typ>\<open>int\<close>. A Python \<^verbatim>\<open>float\<close> and a value of an SQLite
  \<^verbatim>\<open>REAL\<close> column is a \<open>pyfloat\<close>: a binary64 number, an infinity or NaN, with the
  arithmetic of IEEE 754 (round to nearest, ties to even). The sign of a zero is not
  represented (\<^verbatim>\<open>-0.0 == 0.0\<close> in Python), and where Python returns the \<^verbatim>\<open>int\<close> 0 in
  place of a float (the sum of no items, the second argument of \<^verbatim>\<open>max\<close>) the value here is
  the float 0, which equals it. A value of an SQLite \<^verbatim>\<open>INTEGER\<close> column is an \<^typ>\<open>int\<close>:
  within the 64-bit range it is stored as an integer; outside it, it stands for the
  \<^verbatim>\<open>REAL\<close> of that (integral) value, which is what SQLite stores when an integer sum
  overflows. NaN in a \<^verbatim>\<open>REAL\<close> column stands for \<^verbatim>\<open>NULL\<close>, which is what \<^verbatim>\<open>sqlite3\<close> stores
  when a NaN is bound (no column is declared \<^verbatim>\<open>NOT NULL\<close>).

  Names. A field called \<^verbatim>\<open>id\<close> or \<^verbatim>\<open>total\<close> would hide a constant of HOL, and Python
  reuses \<^verbatim>\<open>name\<close>, \<^verbatim>\<open>price\<close>, \<^verbatim>\<open>quantity\<close> and \<^verbatim>\<open>line_total\<close> as keys of several
  dictionaries; the records below prefix the keys of each row or dictionary:
  \<open>row_\<close> for the \<^verbatim>\<open>products\<close> table, \<open>s_\<close> for \<^verbatim>\<open>sales\<close>, \<open>si_\<close> for \<^verbatim>\<open>sale_items\<close>,
  \<open>it_\<close> for the line-item dictionaries built by \<^verbatim>\<open>checkout\<close>, \<open>c_\<close> for the dictionary
  of \<^verbatim>\<open>apply_discount_tax\<close>, \<open>r_\<close> for the receipt, \<open>j_\<close> for a joined row and \<open>sd_\<close>
  for the result of \<^verbatim>\<open>get_sale_details\<close>.
\<close>

subsection \<open>Errors\<close>

text \<open>
  \<^verbatim>\<open>models.py\<close> raises \<^verbatim>\<open>ValueError\<close> with a message. \<^verbatim>\<open>database.py\<close> raises nothing of
  its own, but every \<^verbatim>\<open>cur.execute\<close> and \<^verbatim>\<open>conn.commit\<close> can raise an exception of
  \<^verbatim>\<open>sqlite3\<close> (a locked or unreachable database file), which is \<open>OperationalError\<close> here.
  Python raises \<^verbatim>\<open>OverflowError\<close> when an \<^verbatim>\<open>int\<close> is too large to be converted to a
  \<^verbatim>\<open>float\<close>, and \<^verbatim>\<open>sqlite3\<close> raises it when an \<^verbatim>\<open>int\<close> bound to a statement does not fit
  in 64 bits.
\<close>

datatype error = ValueError string | OperationalError | OverflowError

subsection \<open>Python floats\<close>

datatype pyfloat = Fin real | PInf | NInf | NaN

definition round_half_even :: "real \<Rightarrow> int" where
  "round_half_even y =
     (let f = \<lfloor>y\<rfloor>; d = y - of_int f
      in if d < 1 / 2 then f else if 1 / 2 < d then f + 1 else if even f then f else f + 1)"

text \<open>For \<open>x > 0\<close>, the exponent \<open>e\<close> with \<open>2 powi e \<le> x < 2 powi (e + 1)\<close>.\<close>

definition ilog2 :: "real \<Rightarrow> int" where
  "ilog2 x = (if 1 \<le> x then bitlen \<lfloor>x\<rfloor> - 1 else - bitlen (\<lceil>1 / x\<rceil> - 1))"

text \<open>
  Rounding a positive real to binary64 precision: 53 significant bits, and steps of
  \<open>2 powi (- 1074)\<close> below \<open>2 powi (- 1022)\<close> (the subnormal numbers).
\<close>

definition fl_pos :: "real \<Rightarrow> real" where
  "fl_pos x =
     (let q = max (ilog2 x) (- 1022) - 52
      in of_int (round_half_even (x / 2 powi q)) * 2 powi q)"

text \<open>The binary64 number nearest to a real; what rounds to \<open>2 ^ 1024\<close> or more overflows.\<close>

definition fl :: "real \<Rightarrow> pyfloat" where
  "fl x =
     (if x = 0 then Fin 0
      else let y = fl_pos \<bar>x\<bar>
           in if 2 ^ 1024 \<le> y then (if 0 < x then PInf else NInf)
              else Fin (if 0 < x then y else - y))"

text \<open>
  A \<open>Fin x\<close> whose \<open>x\<close> is no binary64 number stands for the float Python makes of the
  literal \<open>x\<close>: every operation first takes its arguments to the nearest binary64 number.
\<close>

fun norm :: "pyfloat \<Rightarrow> pyfloat" where
  "norm (Fin x) = fl x"
| "norm PInf = PInf"
| "norm NInf = NInf"
| "norm NaN = NaN"

fun fneg :: "pyfloat \<Rightarrow> pyfloat" where
  "fneg (Fin x) = Fin (- x)"
| "fneg PInf = NInf"
| "fneg NInf = PInf"
| "fneg NaN = NaN"

fun add_double :: "pyfloat \<Rightarrow> pyfloat \<Rightarrow> pyfloat" where
  "add_double NaN _ = NaN"
| "add_double _ NaN = NaN"
| "add_double PInf NInf = NaN"
| "add_double NInf PInf = NaN"
| "add_double PInf _ = PInf"
| "add_double _ PInf = PInf"
| "add_double NInf _ = NInf"
| "add_double _ NInf = NInf"
| "add_double (Fin a) (Fin b) = fl (a + b)"

fun mul_double :: "pyfloat \<Rightarrow> pyfloat \<Rightarrow> pyfloat" where
  "mul_double NaN _ = NaN"
| "mul_double _ NaN = NaN"
| "mul_double (Fin a) (Fin b) = fl (a * b)"
| "mul_double (Fin a) PInf = (if a = 0 then NaN else if 0 < a then PInf else NInf)"
| "mul_double (Fin a) NInf = (if a = 0 then NaN else if 0 < a then NInf else PInf)"
| "mul_double PInf (Fin b) = (if b = 0 then NaN else if 0 < b then PInf else NInf)"
| "mul_double NInf (Fin b) = (if b = 0 then NaN else if 0 < b then NInf else PInf)"
| "mul_double PInf PInf = PInf"
| "mul_double PInf NInf = NInf"
| "mul_double NInf PInf = NInf"
| "mul_double NInf NInf = PInf"

text \<open>\<^verbatim>\<open>a > b\<close> on binary64 numbers: false whenever one of them is NaN.\<close>

fun gt_double :: "pyfloat \<Rightarrow> pyfloat \<Rightarrow> bool" where
  "gt_double NaN _ = False"
| "gt_double _ NaN = False"
| "gt_double (Fin a) (Fin b) = (b < a)"
| "gt_double PInf PInf = False"
| "gt_double PInf _ = True"
| "gt_double _ PInf = False"
| "gt_double NInf _ = False"
| "gt_double _ NInf = True"

definition fadd :: "pyfloat \<Rightarrow> pyfloat \<Rightarrow> pyfloat" where
  "fadd a b = add_double (norm a) (norm b)"

definition fsub :: "pyfloat \<Rightarrow> pyfloat \<Rightarrow> pyfloat" where
  "fsub a b = add_double (norm a) (fneg (norm b))"

definition fmul :: "pyfloat \<Rightarrow> pyfloat \<Rightarrow> pyfloat" where
  "fmul a b = mul_double (norm a) (norm b)"

definition fgt :: "pyfloat \<Rightarrow> pyfloat \<Rightarrow> bool" where
  "fgt a b = gt_double (norm a) (norm b)"

text \<open>
  \<^verbatim>\<open>max(a, b)\<close> of two arguments keeps the first unless the second is greater
  (so that \<^verbatim>\<open>max(nan, 0)\<close> is NaN).
\<close>

definition fmax :: "pyfloat \<Rightarrow> pyfloat \<Rightarrow> pyfloat" where
  "fmax a b = (if fgt b a then b else a)"

text \<open>
  \<^verbatim>\<open>round(x, 2)\<close> of a float: the exact value of \<open>x\<close> is rounded to two decimals, half to
  even (\<open>decimal2\<close>), and the float nearest to that decimal is returned; an infinity and
  NaN round to themselves.
\<close>

definition decimal2 :: "real \<Rightarrow> real" where
  "decimal2 x = of_int (round_half_even (x * 100)) / 100"

definition round2 :: "pyfloat \<Rightarrow> pyfloat" where
  "round2 a = (case norm a of Fin x \<Rightarrow> fl (decimal2 x) | b \<Rightarrow> b)"

text \<open>The conversion of an \<^verbatim>\<open>int\<close> operand of a float operation.\<close>

definition float_of_int :: "int \<Rightarrow> error + pyfloat" where
  "float_of_int i = (case fl (of_int i) of Fin x \<Rightarrow> Inr (Fin x) | _ \<Rightarrow> Inl OverflowError)"

text \<open>\<^verbatim>\<open>sum\<close> of floats: they are added to 0 one after the other, from the left.\<close>

definition py_sum :: "pyfloat list \<Rightarrow> pyfloat" where
  "py_sum xs = foldl fadd (Fin 0) xs"

text \<open>
  A comprehension or generator over a list whose element expression may raise: the
  elements are evaluated in order and the first exception ends it.
\<close>

fun traverse :: "('a \<Rightarrow> error + 'b) \<Rightarrow> 'a list \<Rightarrow> error + 'b list" where
  "traverse f [] = Inr []"
| "traverse f (x # xs) =
     (case f x of
        Inl e \<Rightarrow> Inl e
      | Inr y \<Rightarrow> (case traverse f xs of Inl e \<Rightarrow> Inl e | Inr ys \<Rightarrow> Inr (y # ys)))"

subsection \<open>SQLite integers\<close>

definition in64 :: "int \<Rightarrow> bool" where
  "in64 i \<longleftrightarrow> - (2 ^ 63) \<le> i \<and> i < 2 ^ 63"

text \<open>
  \<^verbatim>\<open>quantity_in_stock + ?\<close>. Two 64-bit integers whose sum fits are added exactly. When
  the sum overflows, or when the stored value is a \<^verbatim>\<open>REAL\<close> already (it is \<open>2 ^ 63\<close> or
  more), SQLite converts both operands to binary64 and adds them as such; the sum is an
  integral binary64 number, given here by its value. A sum below the 64-bit range is a
  negative \<^verbatim>\<open>REAL\<close>; it is never stored, since the \<^verbatim>\<open>UPDATE\<close> is conditioned on a sum
  \<^verbatim>\<open>>= 0\<close>, and the negative exact sum stands for it.
\<close>

definition sqlite_add :: "int \<Rightarrow> int \<Rightarrow> int" where
  "sqlite_add s delta =
     (if s < 2 ^ 63 \<and> s + delta < 2 ^ 63 then s + delta
      else case add_double (fl (of_int s)) (fl (of_int delta)) of
             Fin r \<Rightarrow> \<lfloor>r\<rfloor>
           | _ \<Rightarrow> s)"

subsection \<open>Tables (\<^verbatim>\<open>Database._create_tables\<close>)\<close>

record product_row =
  row_id :: int
  row_barcode :: string
  row_name :: string
  row_price :: pyfloat
  quantity_in_stock :: int

record sale_row =
  s_id :: int
  s_timestamp :: string
  s_total :: pyfloat

record sale_item_row =
  si_sale_id :: int
  si_product_id :: int
  si_quantity :: int
  si_line_total :: pyfloat

text \<open>
  The content of the database file: the three tables in row order, and the
  \<^verbatim>\<open>AUTOINCREMENT\<close> counter of \<^verbatim>\<open>sales\<close> (the largest id ever handed out; the next
  sale gets this plus one). No foreign key is enforced: the code never turns
  \<^verbatim>\<open>PRAGMA foreign_keys\<close> on.
\<close>

record tables =
  products :: "product_row list"
  sales :: "sale_row list"
  sale_items :: "sale_item_row list"
  sales_seq :: int

subsection \<open>Classes of \<^verbatim>\<open>models.py\<close>\<close>

record product =
  pid :: int
  barcode :: string
  name :: string
  price :: pyfloat
  stock :: int

definition Product :: "product_row \<Rightarrow> product" where
  "Product row =
     \<lparr>pid = row_id row, barcode = row_barcode row, name = row_name row,
      price = row_price row, stock = quantity_in_stock row\<rparr>"

record cart_item =
  product :: product
  qty :: int

definition CartItem :: "product \<Rightarrow> int \<Rightarrow> cart_item" where
  "CartItem p q = \<lparr>product = p, qty = q\<rparr>"

record cart =
  items :: "cart_item list"

section \<open>Cart\<close>

text \<open>
  \<^verbatim>\<open>CartItem.line_total\<close>: \<^verbatim>\<open>round(self.product.price * self.qty, 2)\<close>, a float times an
  \<^verbatim>\<open>int\<close>.
\<close>

definition line_total :: "cart_item \<Rightarrow> error + pyfloat" where
  "line_total ci =
     (case float_of_int (qty ci) of
        Inl e \<Rightarrow> Inl e
      | Inr q \<Rightarrow> Inr (round2 (fmul (price (product ci)) q)))"

text \<open>
  \<^verbatim>\<open>Cart.add_item\<close>: the loop returns at the first line with the product's id, whose
  quantity it increases in place (the line keeps the product object it already had);
  when the loop finds none, a new line is appended.
\<close>

fun add_item_loop :: "cart_item list \<Rightarrow> product \<Rightarrow> int \<Rightarrow> cart_item list option" where
  "add_item_loop [] p q = None"
| "add_item_loop (ci # rest) p q =
     (if pid (product ci) = pid p then Some (ci\<lparr>qty := qty ci + q\<rparr> # rest)
      else map_option (\<lambda>rest'. ci # rest') (add_item_loop rest p q))"

definition add_item :: "cart \<Rightarrow> product \<Rightarrow> int \<Rightarrow> cart" where
  "add_item c p q =
     (case add_item_loop (items c) p q of
        Some merged \<Rightarrow> c\<lparr>items := merged\<rparr>
      | None \<Rightarrow> c\<lparr>items := items c @ [CartItem p q]\<rparr>)"

definition remove_item :: "cart \<Rightarrow> int \<Rightarrow> cart" where
  "remove_item c product_id = c\<lparr>items := filter (\<lambda>ci. pid (product ci) \<noteq> product_id) (items c)\<rparr>"

definition clear :: "cart \<Rightarrow> cart" where
  "clear c = c\<lparr>items := []\<rparr>"

text \<open>\<^verbatim>\<open>Cart.subtotal\<close>: \<^verbatim>\<open>round(sum(ci.line_total for ci in self.items), 2)\<close>.\<close>

definition subtotal :: "cart \<Rightarrow> error + pyfloat" where
  "subtotal c =
     (case traverse line_total (items c) of
        Inl e \<Rightarrow> Inl e
      | Inr ts \<Rightarrow> Inr (round2 (py_sum ts)))"

text \<open>
  The carts a program can build: \<^verbatim>\<open>Cart()\<close>, the three mutators applied to it, and
  the direct assignment to the \<^verbatim>\<open>qty\<close> of a line that is in the cart (as
  \<^verbatim>\<open>_edit_cart_quantity\<close> of \<^verbatim>\<open>ui.py\<close> does).
\<close>

inductive cart_reachable :: "cart \<Rightarrow> bool" where
  init: "cart_reachable \<lparr>items = []\<rparr>"
| add: "cart_reachable c \<Longrightarrow> cart_reachable (add_item c p q)"
| remove: "cart_reachable c \<Longrightarrow> cart_reachable (remove_item c product_id)"
| cleared: "cart_reachable c \<Longrightarrow> cart_reachable (clear c)"
| assigned: "cart_reachable c \<Longrightarrow> i < length (items c) \<Longrightarrow>
     cart_reachable (c\<lparr>items := (items c)[i := (items c ! i)\<lparr>qty := q\<rparr>]\<rparr>)"

text \<open>The lines of a cart that are for a given product id.\<close>

definition lines_of :: "cart \<Rightarrow> int \<Rightarrow> cart_item list" where
  "lines_of c product_id = filter (\<lambda>ci. pid (product ci) = product_id) (items c)"

text \<open>The quantity a cart holds for a product id: that of its first line for it, else 0.\<close>

definition cart_qty :: "cart \<Rightarrow> int \<Rightarrow> int" where
  "cart_qty c product_id = (case lines_of c product_id of [] \<Rightarrow> 0 | ci # _ \<Rightarrow> qty ci)"

section \<open>Database\<close>

text \<open>
  The connection \<^verbatim>\<open>self.conn\<close>. \<open>view\<close> is what its statements read and write: the
  committed content with the changes of the open transaction (the \<^verbatim>\<open>sqlite3\<close> module
  opens one before the first \<^verbatim>\<open>INSERT\<close>, \<^verbatim>\<open>UPDATE\<close> or \<^verbatim>\<open>DELETE\<close>). \<open>durable\<close> is the
  committed content, which \<^verbatim>\<open>commit()\<close> replaces by the view. The code never rolls back.

  \<open>fail_after\<close> stands for the storage: \<open>None\<close> when it never fails, \<open>Some n\<close> when
  \<open>n\<close> more statements succeed and every later one raises. A statement that raises
  changes nothing. A float bound to a statement is stored as it is (a NaN as \<^verbatim>\<open>NULL\<close>,
  which the rows here show as NaN).
\<close>

record conn =
  "view" :: tables
  durable :: tables
  fail_after :: "nat option"

definition admit :: "conn \<Rightarrow> error + conn" where
  "admit c =
     (case fail_after c of
        None \<Rightarrow> Inr c
      | Some n \<Rightarrow> if n = 0 then Inl OperationalError else Inr (c\<lparr>fail_after := Some (n - 1)\<rparr>))"

definition execute :: "(tables \<Rightarrow> tables) \<Rightarrow> conn \<Rightarrow> (error + unit) \<times> conn" where
  "execute f c =
     (case admit c of
        Inl e \<Rightarrow> (Inl e, c)
      | Inr c' \<Rightarrow> (Inr (), c'\<lparr>view := f (view c')\<rparr>))"

definition select :: "(tables \<Rightarrow> 'a) \<Rightarrow> conn \<Rightarrow> (error + 'a) \<times> conn" where
  "select f c =
     (case admit c of
        Inl e \<Rightarrow> (Inl e, c)
      | Inr c' \<Rightarrow> (Inr (f (view c')), c'))"

definition commit :: "conn \<Rightarrow> (error + unit) \<times> conn" where
  "commit c =
     (case admit c of
        Inl e \<Rightarrow> (Inl e, c)
      | Inr c' \<Rightarrow> (Inr (), c'\<lparr>durable := view c'\<rparr>))"

subsection \<open>Product operations\<close>

definition get_product_by_barcode :: "conn \<Rightarrow> string \<Rightarrow> (error + product_row option) \<times> conn" where
  "get_product_by_barcode c bc = select (\<lambda>t. find (\<lambda>r. row_barcode r = bc) (products t)) c"

text \<open>
  \<^verbatim>\<open>delete_product\<close> returns \<^verbatim>\<open>cur.rowcount > 0\<close>: whether the statement deleted a row.
  The id it binds, like the sale id of \<^verbatim>\<open>get_sale_details\<close>, is taken to be one that a
  row can have, within 64 bits.
\<close>

definition delete_product :: "conn \<Rightarrow> int \<Rightarrow> (error + bool) \<times> conn" where
  "delete_product c product_id =
     (case execute (\<lambda>t. t\<lparr>products := filter (\<lambda>r. row_id r \<noteq> product_id) (products t)\<rparr>) c of
        (Inl e, c1) \<Rightarrow> (Inl e, c1)
      | (Inr _, c1) \<Rightarrow>
          (case commit c1 of
             (Inl e, c2) \<Rightarrow> (Inl e, c2)
           | (Inr _, c2) \<Rightarrow>
               (Inr (filter (\<lambda>r. row_id r = product_id) (products (view c)) \<noteq> []), c2)))"

text \<open>
  \<^verbatim>\<open>adjust_stock\<close>: one \<^verbatim>\<open>UPDATE\<close> whose \<^verbatim>\<open>WHERE\<close> clause selects the rows with the id and
  with \<^verbatim>\<open>quantity_in_stock + delta >= 0\<close>, then a commit. The statement binds \<^verbatim>\<open>delta\<close>
  and \<^verbatim>\<open>product_id\<close>; when one of them does not fit in 64 bits, \<^verbatim>\<open>cur.execute\<close> raises
  \<^verbatim>\<open>OverflowError\<close> before the statement runs, and the commit is not reached. Otherwise
  \<^verbatim>\<open>adjust_stock\<close> returns \<^verbatim>\<open>None\<close> whether or not a row was updated.
\<close>

definition update_stock :: "int \<Rightarrow> int \<Rightarrow> tables \<Rightarrow> tables" where
  "update_stock product_id delta t =
     t\<lparr>products :=
         map (\<lambda>r. if row_id r = product_id \<and> sqlite_add (quantity_in_stock r) delta \<ge> 0
                  then r\<lparr>quantity_in_stock := sqlite_add (quantity_in_stock r) delta\<rparr> else r)
           (products t)\<rparr>"

definition adjust_stock :: "conn \<Rightarrow> int \<Rightarrow> int \<Rightarrow> (error + unit) \<times> conn" where
  "adjust_stock c product_id delta =
     (if \<not> (in64 delta \<and> in64 product_id) then (Inl OverflowError, c)
      else case execute (update_stock product_id delta) c of
             (Inl e, c1) \<Rightarrow> (Inl e, c1)
           | (Inr _, c1) \<Rightarrow> commit c1)"

subsection \<open>Sales operations\<close>

record line_item =
  it_product_id :: int
  it_quantity :: int
  it_line_total :: pyfloat

definition insert_sale :: "string \<Rightarrow> pyfloat \<Rightarrow> tables \<Rightarrow> tables" where
  "insert_sale ts tot t =
     t\<lparr>sales := sales t @ [\<lparr>s_id = sales_seq t + 1, s_timestamp = ts, s_total = tot\<rparr>],
       sales_seq := sales_seq t + 1\<rparr>"

definition insert_sale_item :: "int \<Rightarrow> line_item \<Rightarrow> tables \<Rightarrow> tables" where
  "insert_sale_item sale_id it t =
     t\<lparr>sale_items := sale_items t @
        [\<lparr>si_sale_id = sale_id, si_product_id = it_product_id it,
          si_quantity = it_quantity it, si_line_total = it_line_total it\<rparr>]\<rparr>"

text \<open>
  The \<^verbatim>\<open>for\<close> loop of \<^verbatim>\<open>record_sale\<close>: per item an \<^verbatim>\<open>INSERT\<close>, then \<^verbatim>\<open>adjust_stock\<close>. The
  \<^verbatim>\<open>INSERT\<close> binds the item's product id and quantity, and raises \<^verbatim>\<open>OverflowError\<close> when
  one of them does not fit in 64 bits (the sale id is the one SQLite has just handed out).
\<close>

fun record_sale_loop :: "conn \<Rightarrow> int \<Rightarrow> line_item list \<Rightarrow> (error + unit) \<times> conn" where
  "record_sale_loop c sale_id [] = (Inr (), c)"
| "record_sale_loop c sale_id (it # its) =
     (if \<not> (in64 (it_product_id it) \<and> in64 (it_quantity it)) then (Inl OverflowError, c)
      else case execute (insert_sale_item sale_id it) c of
             (Inl e, c1) \<Rightarrow> (Inl e, c1)
           | (Inr _, c1) \<Rightarrow>
               (case adjust_stock c1 (it_product_id it) (- it_quantity it) of
                  (Inl e, c2) \<Rightarrow> (Inl e, c2)
                | (Inr _, c2) \<Rightarrow> record_sale_loop c2 sale_id its))"

text \<open>
  \<^verbatim>\<open>record_sale\<close>; \<open>ts\<close> is the clock reading \<^verbatim>\<open>datetime.now().isoformat(...)\<close>, and the
  sale id is \<^verbatim>\<open>cur.lastrowid\<close> of the header's \<^verbatim>\<open>INSERT\<close>.
\<close>

definition record_sale :: "conn \<Rightarrow> line_item list \<Rightarrow> pyfloat \<Rightarrow> string \<Rightarrow> (error + unit) \<times> conn" where
  "record_sale c its tot ts =
     (case execute (insert_sale ts tot) c of
        (Inl e, c1) \<Rightarrow> (Inl e, c1)
      | (Inr _, c1) \<Rightarrow>
          (case record_sale_loop c1 (sales_seq (view c1)) its of
             (Inl e, c2) \<Rightarrow> (Inl e, c2)
           | (Inr _, c2) \<Rightarrow> commit c2))"

record joined_row =
  j_sale_id :: int
  j_product_id :: int
  j_quantity :: int
  j_line_total :: pyfloat
  j_name :: string
  j_barcode :: string
  j_price :: pyfloat

record sale_details =
  sd_sale :: sale_row
  sd_items :: "joined_row list"

definition joined :: "sale_item_row \<Rightarrow> product_row \<Rightarrow> joined_row" where
  "joined si p =
     \<lparr>j_sale_id = si_sale_id si, j_product_id = si_product_id si,
      j_quantity = si_quantity si, j_line_total = si_line_total si,
      j_name = row_name p, j_barcode = row_barcode p, j_price = row_price p\<rparr>"

text \<open>
  The second query of \<^verbatim>\<open>get_sale_details\<close>:
  \<^verbatim>\<open>FROM sale_items si JOIN products p ON si.product_id = p.id WHERE si.sale_id = ?\<close>.
\<close>

definition join_items :: "int \<Rightarrow> tables \<Rightarrow> joined_row list" where
  "join_items sale_id t =
     concat (map (\<lambda>si. map (joined si) (filter (\<lambda>p. si_product_id si = row_id p) (products t)))
       (filter (\<lambda>si. si_sale_id si = sale_id) (sale_items t)))"

definition get_sale_details :: "conn \<Rightarrow> int \<Rightarrow> (error + sale_details option) \<times> conn" where
  "get_sale_details c sale_id =
     (case select (\<lambda>t. find (\<lambda>s. s_id s = sale_id) (sales t)) c of
        (Inl e, c1) \<Rightarrow> (Inl e, c1)
      | (Inr None, c1) \<Rightarrow> (Inr None, c1)
      | (Inr (Some sale), c1) \<Rightarrow>
          (case select (join_items sale_id) c1 of
             (Inl e, c2) \<Rightarrow> (Inl e, c2)
           | (Inr rows, c2) \<Rightarrow> (Inr (Some \<lparr>sd_sale = sale, sd_items = rows\<rparr>), c2)))"

section \<open>CashierSystem\<close>

record cashier_system =
  db :: conn
  cart :: cart

definition scan_and_add ::
  "cashier_system \<Rightarrow> string \<Rightarrow> int \<Rightarrow> (error + product \<times> int) \<times> cashier_system" where
  "scan_and_add sys bc q =
     (case get_product_by_barcode (db sys) bc of
        (Inl e, c) \<Rightarrow> (Inl e, sys\<lparr>db := c\<rparr>)
      | (Inr None, c) \<Rightarrow> (Inl (ValueError ''Product not found.''), sys\<lparr>db := c\<rparr>)
      | (Inr (Some row), c) \<Rightarrow>
          (let prod = Product row
           in if q > stock prod then (Inl (ValueError ''Not enough stock.''), sys\<lparr>db := c\<rparr>)
              else (Inr (prod, q), sys\<lparr>db := c, cart := add_item (cart sys) prod q\<rparr>)))"

record calc =
  c_subtotal :: pyfloat
  c_taxed :: pyfloat
  c_discount :: pyfloat
  c_total :: pyfloat

text \<open>
  \<^verbatim>\<open>apply_discount_tax\<close>: \<^verbatim>\<open>sub = self.cart.subtotal\<close>, \<^verbatim>\<open>total = round(sub - discount, 2)\<close>,
  and \<^verbatim>\<open>max(total, 0)\<close> as the total.
\<close>

definition apply_discount_tax :: "cashier_system \<Rightarrow> pyfloat \<Rightarrow> pyfloat \<Rightarrow> error + calc" where
  "apply_discount_tax sys discount tax_rate =
     (case subtotal (cart sys) of
        Inl e \<Rightarrow> Inl e
      | Inr sub \<Rightarrow>
          Inr \<lparr>c_subtotal = sub, c_taxed = sub, c_discount = discount,
               c_total = fmax (round2 (fsub sub discount)) (Fin 0)\<rparr>)"

record receipt =
  r_items :: "(string \<times> int \<times> pyfloat \<times> pyfloat) list"
  r_subtotal :: pyfloat
  r_taxed :: pyfloat
  r_discount :: pyfloat
  r_total :: pyfloat
  r_timestamp :: string

text \<open>The dictionary \<^verbatim>\<open>checkout\<close> builds for a line, and the line's tuple on the receipt.\<close>

definition item_dict :: "cart_item \<Rightarrow> error + line_item" where
  "item_dict ci =
     (case line_total ci of
        Inl e \<Rightarrow> Inl e
      | Inr t \<Rightarrow> Inr \<lparr>it_product_id = pid (product ci), it_quantity = qty ci, it_line_total = t\<rparr>)"

definition receipt_line :: "cart_item \<Rightarrow> error + string \<times> int \<times> pyfloat \<times> pyfloat" where
  "receipt_line ci =
     (case line_total ci of
        Inl e \<Rightarrow> Inl e
      | Inr t \<Rightarrow> Inr (name (product ci), qty ci, price (product ci), t))"

definition items_data :: "cart \<Rightarrow> error + line_item list" where
  "items_data c = traverse item_dict (items c)"

text \<open>
  \<^verbatim>\<open>checkout\<close>; \<open>ts_sale\<close> is the clock reading taken inside \<^verbatim>\<open>record_sale\<close> and
  \<open>ts_receipt\<close> the one taken for the receipt. An exception of \<^verbatim>\<open>apply_discount_tax\<close> or
  of the list of line items leaves \<^verbatim>\<open>checkout\<close> before the database is touched; an
  exception of \<^verbatim>\<open>record_sale\<close> leaves it before the receipt is built and before
  \<^verbatim>\<open>self.cart.clear()\<close>.
\<close>

definition checkout ::
  "cashier_system \<Rightarrow> pyfloat \<Rightarrow> pyfloat \<Rightarrow> string \<Rightarrow> string \<Rightarrow>
     (error + receipt) \<times> cashier_system" where
  "checkout sys discount tax_rate ts_sale ts_receipt =
     (case apply_discount_tax sys discount (Fin 0) of
        Inl e \<Rightarrow> (Inl e, sys)
      | Inr cl \<Rightarrow>
          (case items_data (cart sys) of
             Inl e \<Rightarrow> (Inl e, sys)
           | Inr its \<Rightarrow>
               (case record_sale (db sys) its (c_total cl) ts_sale of
                  (Inl e, c) \<Rightarrow> (Inl e, sys\<lparr>db := c\<rparr>)
                | (Inr _, c) \<Rightarrow>
                    (case traverse receipt_line (items (cart sys)) of
                       Inl e \<Rightarrow> (Inl e, sys\<lparr>db := c\<rparr>)
                     | Inr lines \<Rightarrow>
                         (Inr \<lparr>r_items = lines,
                               r_subtotal = c_subtotal cl, r_taxed = c_taxed cl,
                               r_discount = c_discount cl, r_total = c_total cl,
                               r_timestamp = ts_receipt\<rparr>,
                          sys\<lparr>db := c, cart := clear (cart sys)\<rparr>)))))"

section \<open>The quantity check of the user interface\<close>

text \<open>
  \<^verbatim>\<open>_add_to_cart\<close> of \<^verbatim>\<open>ui.py\<close>, the one caller of \<^verbatim>\<open>scan_and_add\<close>: what it does to the
  cashier system and which dialog it shows. \<open>bc\<close> is the barcode field after
  \<^verbatim>\<open>strip()\<close> and \<open>qt\<close> the quantity field; the updates of the widgets are left out.
\<close>

datatype dialog = Warning string | ErrorBox error | NoDialog

definition add_to_cart :: "cashier_system \<Rightarrow> string \<Rightarrow> int \<Rightarrow> dialog \<times> cashier_system" where
  "add_to_cart sys bc qt =
     (if bc = [] then (Warning ''Please enter a barcode'', sys)
      else if qt \<le> 0 then (Warning ''Quantity must be greater than zero'', sys)
      else (case scan_and_add sys bc qt of
              (Inl e, sys') \<Rightarrow> (ErrorBox e, sys')
            | (Inr _, sys') \<Rightarrow> (NoDialog, sys')))"

section \<open>Notions used by the properties\<close>

text \<open>The product ids of the lines of a cart, in order.\<close>

definition ids_of :: "cart \<Rightarrow> int list" where
  "ids_of c = map (\<lambda>ci. pid (product ci)) (items c)"

text \<open>The row that the barcode lookup of \<^verbatim>\<open>scan_and_add\<close> finds in the connection's view.\<close>

definition find_barcode :: "cashier_system \<Rightarrow> string \<Rightarrow> product_row option" where
  "find_barcode sys bc = find (\<lambda>r. row_barcode r = bc) (products (view (db sys)))"

text \<open>\<^verbatim>\<open>id INTEGER PRIMARY KEY\<close>: no two rows of \<^verbatim>\<open>products\<close> have the same id.\<close>

definition primary_key :: "tables \<Rightarrow> bool" where
  "primary_key t = distinct (map row_id (products t))"

definition stock_of :: "tables \<Rightarrow> int \<Rightarrow> int option" where
  "stock_of t product_id =
     map_option quantity_in_stock (find (\<lambda>r. row_id r = product_id) (products t))"

definition stock_nonneg :: "tables \<Rightarrow> bool" where
  "stock_nonneg t = list_all (\<lambda>r. 0 \<le> quantity_in_stock r) (products t)"

text \<open>
  A sequence of \<^verbatim>\<open>adjust_stock\<close> calls, each given as (product id, delta), made one
  after the other whatever each of them returns or raises.
\<close>

fun adjust_stock_calls :: "conn \<Rightarrow> (int \<times> int) list \<Rightarrow> conn" where
  "adjust_stock_calls c [] = c"
| "adjust_stock_calls c ((product_id, delta) # calls) =
     adjust_stock_calls (snd (adjust_stock c product_id delta)) calls"


definition decrement_all :: "line_item list \<Rightarrow> tables \<Rightarrow> tables" where
  "decrement_all its t = foldl (\<lambda>t' it. update_stock (it_product_id it) (- it_quantity it) t') t its"




section \<open>A small shop\<close>

definition apple_row :: product_row where
  "apple_row = \<lparr>row_id = 1, row_barcode = ''A1'', row_name = ''Apple'', row_price = Fin (5 / 2),
                quantity_in_stock = 2\<rparr>"

definition pear_row :: product_row where
  "pear_row = \<lparr>row_id = 2, row_barcode = ''B2'', row_name = ''Pear'', row_price = Fin 4,
               quantity_in_stock = 10\<rparr>"

definition shop_tables :: tables where
  "shop_tables = \<lparr>products = [apple_row, pear_row], sales = [], sale_items = [], sales_seq = 0\<rparr>"

definition shop :: conn where
  "shop = \<lparr>view = shop_tables, durable = shop_tables, fail_after = None\<rparr>"

definition till :: cashier_system where
  "till = \<lparr>db = shop, cart = \<lparr>items = []\<rparr>\<rparr>"

text \<open>Two apples were scanned into the cart.\<close>

definition till_scanned :: cashier_system where
  "till_scanned = snd (scan_and_add till ''A1'' 2)"



text \<open>The shop after a sale of one apple and one pear.\<close>

definition shop_sold :: conn where
  "shop_sold =
     snd (record_sale shop
       [\<lparr>it_product_id = 1, it_quantity = 1, it_line_total = Fin (5 / 2)\<rparr>,
        \<lparr>it_product_id = 2, it_quantity = 1, it_line_total = Fin 4\<rparr>] (Fin (13 / 2)) ''2024-05-01T10:00:00'')"

lemmas shop_defs = till_def shop_def shop_tables_def apple_row_def pear_row_def

lemmas run_defs =
  scan_and_add_def get_product_by_barcode_def select_def execute_def commit_def admit_def
  adjust_stock_def update_stock_def sqlite_add_def in64_def
  record_sale_def insert_sale_def insert_sale_item_def
  checkout_def apply_discount_tax_def items_data_def item_dict_def receipt_line_def
  add_item_def clear_def subtotal_def line_total_def Product_def CartItem_def Let_def
  delete_product_def get_sale_details_def join_items_def joined_def

lemmas float_defs =
  float_of_int_def py_sum_def fadd_def fsub_def fmul_def fgt_def fmax_def round2_def decimal2_def

section \<open>Lemmas about floats\<close>

lemma round_half_even_eqI:
  assumes "\<bar>y - of_int m\<bar> < 1 / 2"
  shows "round_half_even y = m"
proof -
  from assms have "of_int m - 1 / 2 < y" "y < of_int m + 1 / 2" by linarith+
  then have f: "\<lfloor>y\<rfloor> = m \<or> \<lfloor>y\<rfloor> = m - 1" by linarith
  show ?thesis
  proof (cases "\<lfloor>y\<rfloor> = m")
    case True
    with \<open>y < of_int m + 1 / 2\<close> show ?thesis
      by (simp add: round_half_even_def Let_def)
  next
    case False
    with f have g: "\<lfloor>y\<rfloor> = m - 1" by simp
    with \<open>of_int m - 1 / 2 < y\<close> show ?thesis
      by (simp add: round_half_even_def Let_def)
  qed
qed

lemma round_half_even_of_int [simp]: "round_half_even (of_int m) = m"
  by (rule round_half_even_eqI) simp

lemma bitlen_eqI:
  assumes "2 ^ k \<le> n" "n < 2 ^ Suc k"
  shows "bitlen n = int k + 1"
proof (rule antisym)
  show "bitlen n \<le> int k + 1"
    using assms(2) by (simp add: bitlen_le_iff_power nat_add_distrib)
  show "int k + 1 \<le> bitlen n"
    using assms(1) by (simp add: bitlen_ge_iff_power nat_add_distrib)
qed

lemma ilog2_ge1:
  assumes "2 ^ k \<le> x" "x < 2 ^ Suc k"
  shows "ilog2 x = int k"
proof -
  have "(1::real) \<le> 2 ^ k" by simp
  with assms(1) have x1: "1 \<le> x" by linarith
  have "(2::int) ^ k \<le> \<lfloor>x\<rfloor>"
    using assms(1) by (simp add: le_floor_iff)
  moreover have "\<lfloor>x\<rfloor> < 2 ^ Suc k"
    using assms(2) by (simp add: floor_less_iff)
  ultimately have "bitlen \<lfloor>x\<rfloor> = int k + 1" by (rule bitlen_eqI)
  with x1 show ?thesis by (simp add: ilog2_def)
qed


text \<open>
  Certificates for \<open>fl_pos\<close>: a real in the binade of \<open>2 ^ (k + 52)\<close>, of \<open>2 ^ (52 - k)\<close>
  or of \<open>1 / 2 ^ (k - 52)\<close> that lies strictly within half a step of the \<open>m\<close>-th
  multiple of the step rounds to it.
\<close>

lemma fl_pos_up:
  assumes "2 ^ (k + 52) \<le> x" "x < 2 ^ (k + 53)" "\<bar>x / 2 ^ k - of_int m\<bar> < 1 / 2"
  shows "fl_pos x = of_int m * 2 ^ k"
proof -
  have "(2::real) ^ (k + 53) = 2 ^ Suc (k + 52)" by (simp add: power_add)
  with assms(2) have "x < 2 ^ Suc (k + 52)" by (simp only:)
  with assms(1) have "ilog2 x = int (k + 52)" by (rule ilog2_ge1)
  then have q: "max (ilog2 x) (- 1022) - 52 = int k" by simp
  show ?thesis
    using assms(3) by (simp add: fl_pos_def q Let_def round_half_even_eqI)
qed

lemma fl_pos_mid:
  assumes "k \<le> 52" "2 ^ (52 - k) \<le> x" "x < 2 ^ (53 - k)" "\<bar>x * 2 ^ k - of_int m\<bar> < 1 / 2"
  shows "fl_pos x = of_int m / 2 ^ k"
proof -
  have "53 - k = Suc (52 - k)" using assms(1) by simp
  with assms(3) have "x < 2 ^ Suc (52 - k)" by (simp only:)
  with assms(2) have "ilog2 x = int (52 - k)" by (rule ilog2_ge1)
  then have q: "max (ilog2 x) (- 1022) - 52 = - int k" using assms(1) by simp
  show ?thesis
    using assms(4) by (simp add: fl_pos_def q Let_def power_int_minus field_simps round_half_even_eqI)
qed



lemma fl_pos_val:
  assumes "0 < x" "fl_pos x = y" "y < 2 ^ 1024"
  shows "fl x = Fin y"
  using assms by (simp add: fl_def Let_def)

lemma cert_bound:
  assumes "\<bar>(z::real) - of_int m\<bar> < 1 / 2" "z < 2 ^ 53"
  shows "real_of_int m \<le> 2 ^ 53"
proof -
  from assms have "real_of_int m < 2 ^ 53 + 1 / 2" by linarith
  then have "real_of_int m < real_of_int (2 ^ 53 + 1)" by simp
  then have "m < 2 ^ 53 + 1" by (simp only: of_int_less_iff)
  then have "m \<le> 2 ^ 53" by simp
  then have "real_of_int m \<le> real_of_int (2 ^ 53)" by (simp only: of_int_le_iff)
  then show ?thesis by simp
qed

lemma fl_cert_mid:
  assumes "k \<le> 52" "2 ^ (52 - k) \<le> x" "x < 2 ^ (53 - k)" "\<bar>x * 2 ^ k - of_int m\<bar> < 1 / 2"
  shows "fl x = Fin (of_int m / 2 ^ k)"
proof -
  have "(0::real) < 2 ^ (52 - k)" by simp
  with assms(2) have x0: "0 < x" by linarith
  have "x * 2 ^ k < 2 ^ (53 - k) * 2 ^ k"
    using assms(3) by (intro mult_strict_right_mono) simp_all
  also have "\<dots> = 2 ^ 53"
    using assms(1) by (simp flip: power_add)
  finally have "real_of_int m \<le> 2 ^ 53"
    using assms(4) cert_bound by blast
  then have "real_of_int m / 2 ^ k \<le> 2 ^ 53 / 2 ^ k"
    by (simp add: divide_right_mono)
  also have "\<dots> \<le> 2 ^ 53"
    by (simp add: divide_le_eq)
  also have "\<dots> < (2::real) ^ 1024"
    by (rule power_strict_increasing) simp_all
  finally have "real_of_int m / 2 ^ k < 2 ^ 1024" .
  with x0 fl_pos_mid [OF assms] show ?thesis by (rule fl_pos_val)
qed


lemma fl_cert_up:
  assumes "k \<le> 970" "2 ^ (k + 52) \<le> x" "x < 2 ^ (k + 53)" "\<bar>x / 2 ^ k - of_int m\<bar> < 1 / 2"
  shows "fl x = Fin (of_int m * 2 ^ k)"
proof -
  have "(0::real) < 2 ^ (k + 52)" by simp
  with assms(2) have x0: "0 < x" by linarith
  have "x / 2 ^ k < 2 ^ (k + 53) / 2 ^ k"
    using assms(3) by (simp add: divide_strict_right_mono)
  also have "\<dots> = 2 ^ 53"
    by (simp add: power_add)
  finally have "real_of_int m \<le> 2 ^ 53"
    using assms(4) cert_bound by blast
  then have "real_of_int m * 2 ^ k \<le> 2 ^ 53 * 2 ^ k"
    by (simp add: mult_right_mono)
  also have "\<dots> = 2 ^ (53 + k)"
    by (simp add: power_add)
  also have "\<dots> < (2::real) ^ 1024"
    using assms(1) by (intro power_strict_increasing) simp_all
  finally have "real_of_int m * 2 ^ k < 2 ^ 1024" .
  with x0 fl_pos_up [OF assms(2-4)] show ?thesis by (rule fl_pos_val)
qed

lemma fl_pos_neg: "x < 0 \<Longrightarrow> fl x = fneg (fl (- x))"
  by (simp add: fl_def Let_def)

lemma fl_0 [simp]: "fl 0 = Fin 0"
  by (simp add: fl_def)

lemma fl_int_pos:
  assumes "0 < n" "n < 2 ^ 53"
  shows "fl (of_int n) = Fin (of_int n)"
proof -
  define b where "b = nat (bitlen n)"
  have b1: "1 \<le> bitlen n"
    using assms(1) by (simp add: bitlen_ge_iff_power)
  have b53: "bitlen n \<le> 53"
    using assms(2) by (simp add: bitlen_le_iff_power)
  from bitlen_bounds [OF assms(1)] have lo: "2 ^ nat (bitlen n - 1) \<le> n" and hi: "n < 2 ^ nat (bitlen n)"
    by simp_all
  define k where "k = 53 - b"
  have k52: "k \<le> 52" using b1 by (simp add: k_def b_def)
  have e1: "52 - k = nat (bitlen n - 1)" using b1 b53 by (simp add: k_def b_def nat_diff_distrib)
  have e2: "53 - k = nat (bitlen n)" using b1 b53 by (simp add: k_def b_def)
  have "(2::real) ^ (52 - k) \<le> of_int n"
  proof -
    from lo have "real_of_int (2 ^ nat (bitlen n - 1)) \<le> real_of_int n" by (simp only: of_int_le_iff)
    then show ?thesis by (simp add: e1)
  qed
  moreover have "real_of_int n < 2 ^ (53 - k)"
  proof -
    from hi have "real_of_int n < real_of_int (2 ^ nat (bitlen n))" by (simp only: of_int_less_iff)
    then show ?thesis by (simp add: e2)
  qed
  moreover have "\<bar>real_of_int n * 2 ^ k - of_int (n * 2 ^ k)\<bar> < 1 / 2" by simp
  ultimately have "fl (of_int n) = Fin (of_int (n * 2 ^ k) / 2 ^ k)"
    by (rule fl_cert_mid [OF k52])
  then show ?thesis by simp
qed

lemma fl_int:
  assumes "\<bar>n\<bar> < 2 ^ 53"
  shows "fl (of_int n) = Fin (of_int n)"
proof -
  consider "n = 0" | "0 < n" | "n < 0" by linarith
  then show ?thesis
  proof cases
    case 1
    then show ?thesis by simp
  next
    case 2
    with assms show ?thesis by (intro fl_int_pos) simp_all
  next
    case 3
    with assms have "fl (of_int (- n)) = Fin (of_int (- n))" by (intro fl_int_pos) simp_all
    with 3 show ?thesis by (simp add: fl_pos_neg)
  qed
qed

lemma fl_numeral [simp]: "numeral w < (2::int) ^ 53 \<Longrightarrow> fl (numeral w) = Fin (numeral w)"
  using fl_int [of "numeral w"] by simp

lemma fl_neg_numeral [simp]:
  "numeral w < (2::int) ^ 53 \<Longrightarrow> fl (- numeral w) = Fin (- numeral w)"
  using fl_int [of "- numeral w"] by simp

lemma fl_1 [simp]: "fl 1 = Fin 1"
  using fl_int [of 1] by simp

lemma fl_neg_1 [simp]: "fl (- 1) = Fin (- 1)"
  using fl_int [of "- 1"] by simp

lemma round_half_even_numeral [simp]: "round_half_even (numeral w) = numeral w"
  using round_half_even_of_int [of "numeral w"] by simp

lemma round_half_even_0 [simp]: "round_half_even 0 = 0"
  using round_half_even_of_int [of 0] by simp

section \<open>Lemmas about the cart\<close>

lemma add_item_loop_None:
  "add_item_loop xs p q = None \<longleftrightarrow> pid p \<notin> set (map (\<lambda>ci. pid (product ci)) xs)"
  by (induction xs) auto

lemma add_item_loop_twice:
  "add_item_loop xs p q1 = Some ys \<Longrightarrow> add_item_loop ys p q2 = add_item_loop xs p (q1 + q2)"
  by (induction xs arbitrary: ys) (auto split: if_splits)

lemma add_item_loop_append:
  "add_item_loop xs p q1 = None \<Longrightarrow>
   add_item_loop (xs @ [CartItem p q1]) p q2 = Some (xs @ [CartItem p (q1 + q2)])"
  by (induction xs) (auto simp: CartItem_def split: if_splits)

lemma add_item_twice: "add_item (add_item c p q1) p q2 = add_item c p (q1 + q2)"
proof (cases "add_item_loop (items c) p q1")
  case None
  then have "add_item_loop (items c) p (q1 + q2) = None"
    by (simp add: add_item_loop_None)
  with None add_item_loop_append [OF None, of q2] show ?thesis
    by (simp add: add_item_def)
next
  case (Some ys)
  then have "add_item_loop (items c) p q1 \<noteq> None" by simp
  then have "add_item_loop (items c) p (q1 + q2) \<noteq> None"
    by (simp add: add_item_loop_None)
  then obtain zs where "add_item_loop (items c) p (q1 + q2) = Some zs"
    by auto
  with Some show ?thesis
    using add_item_loop_twice [OF Some, of q2] by (simp add: add_item_def)
qed

lemma add_item_loop_ids:
  "add_item_loop xs p q = Some ys \<Longrightarrow> map (\<lambda>ci. pid (product ci)) ys = map (\<lambda>ci. pid (product ci)) xs"
  by (induction xs arbitrary: ys) (auto split: if_splits)

lemma add_item_ids:
  "ids_of (add_item c p q) = (if pid p \<in> set (ids_of c) then ids_of c else ids_of c @ [pid p])"
proof (cases "add_item_loop (items c) p q")
  case None
  moreover from None have "pid p \<notin> set (ids_of c)"
    by (simp add: add_item_loop_None ids_of_def)
  ultimately show ?thesis
    by (simp add: add_item_def ids_of_def CartItem_def)
next
  case (Some ys)
  then have "add_item_loop (items c) p q \<noteq> None" by simp
  then have "pid p \<in> set (ids_of c)"
    by (simp add: add_item_loop_None ids_of_def)
  with Some add_item_loop_ids [OF Some] show ?thesis
    by (simp add: add_item_def ids_of_def)
qed

lemma cart_reachable_distinct: "cart_reachable c \<Longrightarrow> distinct (ids_of c)"
proof (induction rule: cart_reachable.induct)
  case init
  show ?case by (simp add: ids_of_def)
next
  case (add c p q)
  then show ?case by (simp add: add_item_ids)
next
  case (remove c product_id)
  then show ?case by (simp add: ids_of_def remove_item_def distinct_map_filter)
next
  case (cleared c)
  show ?case by (simp add: ids_of_def clear_def)
next
  case (assigned c i q)
  have "map (\<lambda>ci. pid (product ci)) ((items c)[i := (items c ! i)\<lparr>qty := q\<rparr>]) = map (\<lambda>ci. pid (product ci)) (items c)"
    using assigned.hyps(2) by (simp add: map_update list_update_same_conv)
  with assigned.IH show ?case by (simp add: ids_of_def)
qed

lemma filter_id_absent:
  "k \<notin> set (map (\<lambda>ci. pid (product ci)) xs) \<Longrightarrow> filter (\<lambda>ci. pid (product ci) = k) xs = []"
  by (induction xs) auto

lemma add_item_loop_lines:
  "add_item_loop xs p q = Some ys \<Longrightarrow> distinct (map (\<lambda>ci. pid (product ci)) xs) \<Longrightarrow>
   \<exists>ci. filter (\<lambda>ci. pid (product ci) = pid p) xs = [ci] \<and>
        filter (\<lambda>ci. pid (product ci) = pid p) ys = [ci\<lparr>qty := qty ci + q\<rparr>]"
proof (induction xs arbitrary: ys)
  case Nil
  then show ?case by simp
next
  case (Cons a xs)
  show ?case
  proof (cases "pid (product a) = pid p")
    case True
    with Cons.prems have "filter (\<lambda>ci. pid (product ci) = pid p) xs = []"
      by (intro filter_id_absent) simp
    with True Cons.prems show ?thesis by auto
  next
    case False
    with Cons.prems obtain zs where zs: "add_item_loop xs p q = Some zs" "ys = a # zs"
      by auto
    from Cons.IH [OF zs(1)] Cons.prems(2) False zs(2) show ?thesis by simp
  qed
qed

lemma lines_of_add_item:
  assumes "distinct (ids_of c)"
  shows "\<exists>ci. lines_of (add_item c p q) (pid p) = [ci] \<and> qty ci = cart_qty c (pid p) + q"
proof (cases "add_item_loop (items c) p q")
  case None
  then have "filter (\<lambda>ci. pid (product ci) = pid p) (items c) = []"
    by (intro filter_id_absent) (simp add: add_item_loop_None)
  with None show ?thesis
    by (simp add: add_item_def lines_of_def cart_qty_def CartItem_def)
next
  case (Some ys)
  from add_item_loop_lines [OF Some] assms
  obtain ci where "filter (\<lambda>ci. pid (product ci) = pid p) (items c) = [ci]"
    "filter (\<lambda>ci. pid (product ci) = pid p) ys = [ci\<lparr>qty := qty ci + q\<rparr>]"
    by (auto simp: ids_of_def)
  with Some show ?thesis
    by (simp add: add_item_def lines_of_def cart_qty_def)
qed

section \<open>Lemmas about the connection and the stock update\<close>

lemma admit_healthy: "fail_after c = None \<Longrightarrow> admit c = Inr c"
  by (simp add: admit_def)

lemma execute_healthy: "fail_after c = None \<Longrightarrow> execute f c = (Inr (), c\<lparr>view := f (view c)\<rparr>)"
  by (simp add: execute_def admit_healthy)

lemma select_healthy: "fail_after c = None \<Longrightarrow> select f c = (Inr (f (view c)), c)"
  by (simp add: select_def admit_healthy)

lemma commit_healthy: "fail_after c = None \<Longrightarrow> commit c = (Inr (), c\<lparr>durable := view c\<rparr>)"
  by (simp add: commit_def admit_healthy)

lemma adjust_stock_healthy:
  "fail_after c = None \<Longrightarrow> in64 delta \<Longrightarrow> in64 product_id \<Longrightarrow>
   adjust_stock c product_id delta =
     (Inr (), c\<lparr>view := update_stock product_id delta (view c),
               durable := update_stock product_id delta (view c)\<rparr>)"
  by (simp add: adjust_stock_def execute_healthy commit_healthy)

lemma adjust_stock_unbound:
  "\<not> (in64 delta \<and> in64 product_id) \<Longrightarrow> adjust_stock c product_id delta = (Inl OverflowError, c)"
  by (simp add: adjust_stock_def)

text \<open>Whatever the storage does, a statement shows the old view or the updated one.\<close>

lemma admit_cases:
  "admit c = Inl OperationalError \<or> (\<exists>n. admit c = Inr (c\<lparr>fail_after := n\<rparr>))"
  by (cases "fail_after c") (auto simp: admit_def intro: exI [of _ None])

lemma execute_view:
  "view (snd (execute f c)) = view c \<or> view (snd (execute f c)) = f (view c)"
  using admit_cases [of c] by (auto simp: execute_def)

lemma commit_view: "view (snd (commit c)) = view c"
  using admit_cases [of c] by (auto simp: commit_def)

lemma execute_error: "fst (execute f c) = Inl e \<Longrightarrow> e = OperationalError"
  using admit_cases [of c] by (auto simp: execute_def)

lemma commit_error: "fst (commit c) = Inl e \<Longrightarrow> e = OperationalError"
  using admit_cases [of c] by (auto simp: commit_def)

lemma select_error: "fst (select f c) = Inl e \<Longrightarrow> e = OperationalError"
  using admit_cases [of c] by (auto simp: select_def)

lemma adjust_stock_view:
  "view (snd (adjust_stock c i d)) = view c \<or> view (snd (adjust_stock c i d)) = update_stock i d (view c)"
  using execute_view [of "update_stock i d" c] commit_view [of "snd (execute (update_stock i d) c)"]
  by (auto simp: adjust_stock_def split: prod.splits sum.splits if_splits)

lemma adjust_stock_error:
  "fst (adjust_stock c i d) = Inl e \<Longrightarrow> e = OperationalError \<or> e = OverflowError"
  using execute_error [of "update_stock i d" c] commit_error [of "snd (execute (update_stock i d) c)"]
  by (auto simp: adjust_stock_def split: prod.splits sum.splits if_splits)

lemma update_stock_nonneg: "stock_nonneg t \<Longrightarrow> stock_nonneg (update_stock i d t)"
  by (auto simp: stock_nonneg_def update_stock_def list_all_iff)

lemma adjust_stock_nonneg:
  "stock_nonneg (view c) \<Longrightarrow> stock_nonneg (view (snd (adjust_stock c i d)))"
  using adjust_stock_view [of c i d] by (auto simp: update_stock_nonneg)

lemma adjust_stock_calls_nonneg:
  "stock_nonneg (view c) \<Longrightarrow> stock_nonneg (view (adjust_stock_calls c calls))"
  by (induction c calls rule: adjust_stock_calls.induct) (auto simp: adjust_stock_nonneg)

lemma find_map_row:
  "(\<And>r. row_id (f r) = row_id r) \<Longrightarrow>
   find (\<lambda>r. row_id r = i) (map f rs) = map_option f (find (\<lambda>r. row_id r = i) rs)"
  by (induction rs) auto

lemma sqlite_add_exact: "s < 2 ^ 63 \<Longrightarrow> s + d < 2 ^ 63 \<Longrightarrow> sqlite_add s d = s + d"
  by (simp add: sqlite_add_def)

lemma stock_of_update_stock:
  "stock_of (update_stock i d t) j =
     map_option (\<lambda>s. if j = i \<and> 0 \<le> sqlite_add s d then sqlite_add s d else s) (stock_of t j)"
proof -
  let ?f = "\<lambda>r. if row_id r = i \<and> sqlite_add (quantity_in_stock r) d \<ge> 0
                 then r\<lparr>quantity_in_stock := sqlite_add (quantity_in_stock r) d\<rparr> else r"
  have "find (\<lambda>r. row_id r = j) (map ?f (products t)) = map_option ?f (find (\<lambda>r. row_id r = j) (products t))"
    by (rule find_map_row) simp
  then show ?thesis
    by (cases "find (\<lambda>r. row_id r = j) (products t)")
      (auto simp: stock_of_def update_stock_def dest: find_Some_iff [THEN iffD1])
qed

lemma update_stock_noop:
  assumes "primary_key t" and "stock_of t i = Some s" and "\<not> 0 \<le> sqlite_add s d"
  shows "update_stock i d t = t"
proof -
  have "\<And>r. r \<in> set (products t) \<Longrightarrow> row_id r = i \<Longrightarrow> quantity_in_stock r = s"
  proof -
    fix r assume r: "r \<in> set (products t)" "row_id r = i"
    from assms(2) obtain r' where r': "find (\<lambda>r. row_id r = i) (products t) = Some r'" "quantity_in_stock r' = s"
      by (auto simp: stock_of_def)
    then have "r' \<in> set (products t)" "row_id r' = i"
      by (auto simp: find_Some_iff)
    with r assms(1) have "r = r'"
      by (auto simp: primary_key_def distinct_map inj_on_def)
    with r' show "quantity_in_stock r = s" by simp
  qed
  with assms(3) have "map (\<lambda>r. if row_id r = i \<and> sqlite_add (quantity_in_stock r) d \<ge> 0
                 then r\<lparr>quantity_in_stock := sqlite_add (quantity_in_stock r) d\<rparr> else r) (products t) = products t"
    by (intro map_idI) auto
  then show ?thesis by (simp add: update_stock_def)
qed

lemma update_stock_absent:
  assumes "stock_of t i = None"
  shows "update_stock i d t = t"
proof -
  from assms have "\<And>r. r \<in> set (products t) \<Longrightarrow> row_id r \<noteq> i"
    by (auto simp: stock_of_def find_None_iff)
  then have "map (\<lambda>r. if row_id r = i \<and> sqlite_add (quantity_in_stock r) d \<ge> 0
                 then r\<lparr>quantity_in_stock := sqlite_add (quantity_in_stock r) d\<rparr> else r) (products t) = products t"
    by (intro map_idI) auto
  then show ?thesis by (simp add: update_stock_def)
qed

section \<open>Lemmas about recording a sale\<close>

lemma update_stock_sale_items [simp]:
  "update_stock i d (t\<lparr>sale_items := x\<rparr>) = (update_stock i d t)\<lparr>sale_items := x\<rparr>"
  by (simp add: update_stock_def)

lemma update_stock_sales [simp]:
  "update_stock i d (t\<lparr>sales := y\<rparr>) = (update_stock i d t)\<lparr>sales := y\<rparr>"
  "update_stock i d (t\<lparr>sales_seq := z\<rparr>) = (update_stock i d t)\<lparr>sales_seq := z\<rparr>"
  by (simp_all add: update_stock_def)

lemma decrement_all_sales [simp]:
  "decrement_all its (t\<lparr>sales := y\<rparr>) = (decrement_all its t)\<lparr>sales := y\<rparr>"
  "decrement_all its (t\<lparr>sales_seq := z\<rparr>) = (decrement_all its t)\<lparr>sales_seq := z\<rparr>"
  by (induction its arbitrary: t) (simp_all add: decrement_all_def)

lemma update_stock_fields [simp]:
  "sales (update_stock i d t) = sales t"
  "sale_items (update_stock i d t) = sale_items t"
  "sales_seq (update_stock i d t) = sales_seq t"
  by (simp_all add: update_stock_def)

lemma decrement_all_sale_items [simp]:
  "decrement_all its (t\<lparr>sale_items := x\<rparr>) = (decrement_all its t)\<lparr>sale_items := x\<rparr>"
  by (induction its arbitrary: t) (simp_all add: decrement_all_def)

lemma decrement_all_fields [simp]:
  "sales (decrement_all its t) = sales t"
  "sale_items (decrement_all its t) = sale_items t"
  "sales_seq (decrement_all its t) = sales_seq t"
  by (induction its arbitrary: t) (simp_all add: decrement_all_def)









section \<open>Lemmas about totals\<close>









lemma traverse_Inr: "traverse f xs = Inr ys \<Longrightarrow> map f xs = map Inr ys"
  by (induction xs arbitrary: ys) (auto split: sum.splits)








lemma round2_zero [simp]: "round2 (Fin 0) = Fin 0"
  by (simp add: round2_def decimal2_def)

lemma subtotal_empty: "subtotal (clear c) = Inr (Fin 0)"
  by (simp add: subtotal_def clear_def py_sum_def)





section \<open>Lemmas about checkout\<close>



lemma checkout_Inr:
  assumes "fst (checkout sys discount tax_rate ts_sale ts_receipt) = Inr r"
  shows "cart (snd (checkout sys discount tax_rate ts_sale ts_receipt)) = clear (cart sys) \<and>
         traverse receipt_line (items (cart sys)) = Inr (r_items r) \<and>
         subtotal (cart sys) = Inr (r_subtotal r) \<and>
         r_taxed r = r_subtotal r \<and>
         r_discount r = discount \<and>
         r_total r = fmax (round2 (fsub (r_subtotal r) discount)) (Fin 0) \<and>
         r_timestamp r = ts_receipt"
proof (cases "apply_discount_tax sys discount (Fin 0)")
  case (Inl e1)
  with assms show ?thesis by (simp add: checkout_def)
next
  case cl: (Inr cl)
  then obtain sub where sub: "subtotal (cart sys) = Inr sub"
    and cl_eq: "cl = \<lparr>c_subtotal = sub, c_taxed = sub, c_discount = discount,
                      c_total = fmax (round2 (fsub sub discount)) (Fin 0)\<rparr>"
    by (auto simp: apply_discount_tax_def split: sum.splits)
  show ?thesis
  proof (cases "items_data (cart sys)")
    case (Inl e2)
    with cl assms show ?thesis by (simp add: checkout_def)
  next
    case its: (Inr its)
    obtain r' c where rs: "record_sale (db sys) its (c_total cl) ts_sale = (r', c)"
      by (cases "record_sale (db sys) its (c_total cl) ts_sale")
    show ?thesis
    proof (cases r')
      case (Inl e3)
      with cl its rs assms show ?thesis by (simp add: checkout_def)
    next
      case ok: (Inr u)
      show ?thesis
      proof (cases "traverse receipt_line (items (cart sys))")
        case (Inl e4)
        with ok cl its rs assms show ?thesis by (simp add: checkout_def)
      next
        case (Inr lines)
        with ok cl its rs assms have
          "r = \<lparr>r_items = lines, r_subtotal = c_subtotal cl, r_taxed = c_taxed cl,
                r_discount = c_discount cl, r_total = c_total cl, r_timestamp = ts_receipt\<rparr>"
          and "cart (snd (checkout sys discount tax_rate ts_sale ts_receipt)) = clear (cart sys)"
          by (auto simp: checkout_def)
        with Inr sub cl_eq show ?thesis by simp
      qed
    qed
  qed
qed


section \<open>Lemmas about scanning and about sale details\<close>

lemma scan_and_add_healthy:
  assumes "fail_after (db sys) = None"
  shows "scan_and_add sys bc q =
     (case find_barcode sys bc of
        None \<Rightarrow> (Inl (ValueError ''Product not found.''), sys)
      | Some row \<Rightarrow>
          if q > quantity_in_stock row then (Inl (ValueError ''Not enough stock.''), sys)
          else (Inr (Product row, q), sys\<lparr>cart := add_item (cart sys) (Product row) q\<rparr>))"
  using assms
  by (simp add: scan_and_add_def get_product_by_barcode_def select_healthy find_barcode_def
      Let_def Product_def split: option.splits)

lemma scan_and_add_Inl:
  assumes "fst (scan_and_add sys bc q) = Inl e"
  shows "cart (snd (scan_and_add sys bc q)) = cart sys"
proof -
  obtain r c where g: "get_product_by_barcode (db sys) bc = (r, c)"
    by (cases "get_product_by_barcode (db sys) bc")
  with assms show ?thesis
    by (auto simp: scan_and_add_def Let_def split: sum.splits option.splits if_splits)
qed

lemma cart_qty_add_item:
  assumes "distinct (ids_of c)"
  shows "cart_qty (add_item c p q) (pid p) = cart_qty c (pid p) + q"
proof -
  from lines_of_add_item [OF assms, of p q] obtain ci where
    "lines_of (add_item c p q) (pid p) = [ci]" "qty ci = cart_qty c (pid p) + q"
    by blast
  then show ?thesis by (simp add: cart_qty_def)
qed

lemma add_item_absent:
  assumes "pid p \<notin> set (ids_of c)"
  shows "add_item c p q = c\<lparr>items := items c @ [CartItem p q]\<rparr>"
proof -
  from assms have "add_item_loop (items c) p q = None"
    by (simp add: add_item_loop_None ids_of_def)
  then show ?thesis by (simp add: add_item_def)
qed

lemma filter_joined:
  "filter (\<lambda>j. j_product_id j \<noteq> k) (map (joined si) ps) =
     (if si_product_id si = k then [] else map (joined si) ps)"
  by (induction ps) (auto simp: joined_def)

lemma join_items_delete:
  "join_items sale_id (t\<lparr>products := filter (\<lambda>r. row_id r \<noteq> k) (products t)\<rparr>) =
     filter (\<lambda>j. j_product_id j \<noteq> k) (join_items sale_id t)"
proof -
  have "\<And>sis. concat (map (\<lambda>si. map (joined si) (filter (\<lambda>p. si_product_id si = row_id p)
            (filter (\<lambda>r. row_id r \<noteq> k) (products t)))) sis) =
        filter (\<lambda>j. j_product_id j \<noteq> k) (concat (map (\<lambda>si. map (joined si)
            (filter (\<lambda>p. si_product_id si = row_id p) (products t))) sis))"
  proof -
    fix sis show "?thesis sis"
    proof (induction sis)
      case Nil
      show ?case by simp
    next
      case (Cons si sis)
      have "filter (\<lambda>p. si_product_id si = row_id p) (filter (\<lambda>r. row_id r \<noteq> k) (products t)) =
            (if si_product_id si = k then [] else filter (\<lambda>p. si_product_id si = row_id p) (products t))"
        by (auto simp: filter_empty_conv intro: filter_cong)
      with Cons show ?case by (simp add: filter_joined)
    qed
  qed
  then show ?thesis by (simp add: join_items_def)
qed

lemma delete_product_healthy:
  assumes "fail_after c = None"
  shows "delete_product c k =
     (Inr (filter (\<lambda>r. row_id r = k) (products (view c)) \<noteq> []),
      c\<lparr>view := (view c)\<lparr>products := filter (\<lambda>r. row_id r \<noteq> k) (products (view c))\<rparr>,
        durable := (view c)\<lparr>products := filter (\<lambda>r. row_id r \<noteq> k) (products (view c))\<rparr>\<rparr>)"
  using assms by (simp add: delete_product_def execute_healthy commit_healthy)

lemma get_sale_details_healthy:
  assumes "fail_after c = None"
  shows "get_sale_details c sale_id =
     (Inr (map_option (\<lambda>sale. \<lparr>sd_sale = sale, sd_items = join_items sale_id (view c)\<rparr>)
             (find (\<lambda>s. s_id s = sale_id) (sales (view c)))), c)"
  using assms by (simp add: get_sale_details_def select_healthy split: option.splits)

lemma details_after_delete:
  assumes "fail_after c = None"
  shows "\<exists>b c1. delete_product c k = (Inr b, c1) \<and>
           fail_after c1 = None \<and>
           sales (view c1) = sales (view c) \<and>
           sale_items (view c1) = sale_items (view c) \<and>
           filter (\<lambda>r. row_id r = k) (products (view c1)) = [] \<and>
           (\<forall>sale_id d. fst (get_sale_details c sale_id) = Inr (Some d) \<longrightarrow>
              fst (get_sale_details c1 sale_id) =
                Inr (Some (d\<lparr>sd_items := filter (\<lambda>j. j_product_id j \<noteq> k) (sd_items d)\<rparr>)))"
proof -
  let ?t1 = "(view c)\<lparr>products := filter (\<lambda>r. row_id r \<noteq> k) (products (view c))\<rparr>"
  let ?c1 = "c\<lparr>view := ?t1, durable := ?t1\<rparr>"
  have h1: "fail_after ?c1 = None" using assms by simp
  have "\<forall>sale_id d. fst (get_sale_details c sale_id) = Inr (Some d) \<longrightarrow>
              fst (get_sale_details ?c1 sale_id) =
                Inr (Some (d\<lparr>sd_items := filter (\<lambda>j. j_product_id j \<noteq> k) (sd_items d)\<rparr>))"
    by (auto simp: get_sale_details_healthy [OF assms] get_sale_details_healthy [OF h1]
        join_items_delete)
  moreover have "filter (\<lambda>r. row_id r = k) (products (view ?c1)) = []"
    by (simp add: filter_empty_conv)
  ultimately show ?thesis
    using delete_product_healthy [OF assms, of k] h1 by (intro exI conjI) simp_all
qed

section \<open>Lemmas about the small shop\<close>

lemma fl_five_halves [simp]: "fl (5 / 2) = Fin (5 / 2)"
  using fl_cert_mid [of 51 "5 / 2" "5 * 2 ^ 50"] by simp

lemma till_scanned_eq:
  "till_scanned = till\<lparr>cart := \<lparr>items = [CartItem (Product apple_row) 2]\<rparr>\<rparr>"
  by (simp add: till_scanned_def run_defs shop_defs)


lemma shop_sold_eq:
  "shop_sold = shop\<lparr>view := \<lparr>products = [apple_row\<lparr>quantity_in_stock := 1\<rparr>, pear_row\<lparr>quantity_in_stock := 9\<rparr>],
       sales = [\<lparr>s_id = 1, s_timestamp = ''2024-05-01T10:00:00'', s_total = Fin (13 / 2)\<rparr>],
       sale_items = [\<lparr>si_sale_id = 1, si_product_id = 1, si_quantity = 1, si_line_total = Fin (5 / 2)\<rparr>,
                     \<lparr>si_sale_id = 1, si_product_id = 2, si_quantity = 1, si_line_total = Fin 4\<rparr>],
       sales_seq = 1\<rparr>,
     durable := \<lparr>products = [apple_row\<lparr>quantity_in_stock := 1\<rparr>, pear_row\<lparr>quantity_in_stock := 9\<rparr>],
       sales = [\<lparr>s_id = 1, s_timestamp = ''2024-05-01T10:00:00'', s_total = Fin (13 / 2)\<rparr>],
       sale_items = [\<lparr>si_sale_id = 1, si_product_id = 1, si_quantity = 1, si_line_total = Fin (5 / 2)\<rparr>,
                     \<lparr>si_sale_id = 1, si_product_id = 2, si_quantity = 1, si_line_total = Fin 4\<rparr>],
       sales_seq = 1\<rparr>\<rparr>"
  by (simp add: shop_sold_def run_defs shop_defs)




text \<open>
  A storage failure in the middle of \<^verbatim>\<open>record_sale\<close>: the storage accepts four statements
  (the header, the first line item, its stock update and the commit inside
  \<^verbatim>\<open>adjust_stock\<close>) and fails at the fifth. The header, the first line item and the first
  decrement are committed; the second item is not.
\<close>

lemma record_sale_storage_failure:
  "fst (record_sale (shop\<lparr>fail_after := Some 4\<rparr>)
       [\<lparr>it_product_id = 1, it_quantity = 1, it_line_total = Fin (5 / 2)\<rparr>,
        \<lparr>it_product_id = 2, it_quantity = 1, it_line_total = Fin 4\<rparr>] (Fin (13 / 2)) ''t'') = Inl OperationalError \<and>
   sales (durable (snd (record_sale (shop\<lparr>fail_after := Some 4\<rparr>)
       [\<lparr>it_product_id = 1, it_quantity = 1, it_line_total = Fin (5 / 2)\<rparr>,
        \<lparr>it_product_id = 2, it_quantity = 1, it_line_total = Fin 4\<rparr>] (Fin (13 / 2)) ''t''))) =
     [\<lparr>s_id = 1, s_timestamp = ''t'', s_total = Fin (13 / 2)\<rparr>] \<and>
   sale_items (durable (snd (record_sale (shop\<lparr>fail_after := Some 4\<rparr>)
       [\<lparr>it_product_id = 1, it_quantity = 1, it_line_total = Fin (5 / 2)\<rparr>,
        \<lparr>it_product_id = 2, it_quantity = 1, it_line_total = Fin 4\<rparr>] (Fin (13 / 2)) ''t''))) =
     [\<lparr>si_sale_id = 1, si_product_id = 1, si_quantity = 1, si_line_total = Fin (5 / 2)\<rparr>] \<and>
   map quantity_in_stock (products (durable (snd (record_sale (shop\<lparr>fail_after := Some 4\<rparr>)
       [\<lparr>it_product_id = 1, it_quantity = 1, it_line_total = Fin (5 / 2)\<rparr>,
        \<lparr>it_product_id = 2, it_quantity = 1, it_line_total = Fin 4\<rparr>] (Fin (13 / 2)) ''t'')))) = [1, 10]"
  by (simp add: run_defs shop_defs)

lemma find_barcode_None:
  "find_barcode sys bc = None \<longleftrightarrow> bc \<notin> set (map row_barcode (products (view (db sys))))"
  by (auto simp: find_barcode_def find_None_iff)






text \<open>
  \<^verbatim>\<open>quantity_in_stock + ?\<close> with a stock of 2 and \<open>2 ^ 63 - 1\<close> bound: the integer sum
  overflows, and the sum of the two as binary64 numbers is \<open>2 ^ 63\<close>.
\<close>

lemma sqlite_add_overflow_example: "sqlite_add 2 (2 ^ 63 - 1) = 2 ^ 63"
proof -
  have a: "fl (2 ^ 63 - 1) = Fin (2 ^ 63)"
    using fl_cert_up [of 10 "2 ^ 63 - 1" "2 ^ 53"] by simp
  have b: "fl (2 + 2 ^ 63) = Fin (2 ^ 63)"
    using fl_cert_up [of 11 "2 + 2 ^ 63" "2 ^ 52"] by simp
  have "add_double (fl (of_int 2)) (fl (of_int (2 ^ 63 - 1))) = add_double (Fin 2) (Fin (2 ^ 63))"
    using a by simp
  also have "\<dots> = Fin (2 ^ 63)" using b by (simp only: add_double.simps)
  finally have "add_double (fl (of_int 2)) (fl (of_int (2 ^ 63 - 1))) = Fin (2 ^ 63)" .
  moreover have "\<lfloor>(2::real) ^ 63\<rfloor> = 2 ^ 63"
    by (metis floor_of_int of_int_numeral of_int_power)
  ultimately show ?thesis by (simp add: sqlite_add_def)
qed

lemma traverse_receipt_line:
  "traverse receipt_line xs = Inr ls \<Longrightarrow>
   map (\<lambda>(n, q, p, t). (n, q, p, Inr t)) ls =
     map (\<lambda>ci. (name (product ci), qty ci, price (product ci), line_total ci)) xs"
  by (induction xs arbitrary: ls) (auto simp: receipt_line_def split: sum.splits)

section \<open>The claims\<close>

subsection \<open>Cart merge\<close>

text \<open>
  C6, as stated: for every cart, adding a product with \<open>q1\<close> and then with \<open>q2\<close> leaves
  exactly one line for it, of quantity \<open>q1 + q2\<close>. It fails for a cart that already
  holds the product: with five apples in the cart, adding one and then two gives a line
  of eight.
\<close>

theorem add_item_merge_counterexample:
  "cart_reachable (add_item \<lparr>items = []\<rparr> (Product apple_row) 5) \<and>
   lines_of (add_item (add_item (add_item \<lparr>items = []\<rparr> (Product apple_row) 5)
               (Product apple_row) 1) (Product apple_row) 2) (pid (Product apple_row)) =
     [CartItem (Product apple_row) 8] \<and>
   qty (CartItem (Product apple_row) 8) \<noteq> 1 + 2"
proof -
  have "cart_reachable (add_item \<lparr>items = []\<rparr> (Product apple_row) 5)"
    by (rule cart_reachable.add) (rule cart_reachable.init)
  then show ?thesis
    by (simp add: add_item_def lines_of_def CartItem_def Product_def apple_row_def)
qed

text \<open>
  C6, amended: for every cart built by the cart's operations, every product and all
  quantities \<open>q1\<close> and \<open>q2\<close>, adding the product with \<open>q1\<close> and then with \<open>q2\<close> gives
  the same cart as adding it once with \<open>q1 + q2\<close>; that cart has exactly one line for
  the product, whose quantity is \<open>q1 + q2\<close> more than the quantity the cart held for
  the product before (\<open>cart_qty\<close>, which is 0 when it held none); and the cart never
  holds two lines with the same product id.
\<close>

theorem add_item_merge:
  assumes "cart_reachable c"
  shows "add_item (add_item c p q1) p q2 = add_item c p (q1 + q2) \<and>
         (\<exists>ci. lines_of (add_item (add_item c p q1) p q2) (pid p) = [ci] \<and>
               qty ci = cart_qty c (pid p) + q1 + q2) \<and>
         distinct (ids_of c)"
proof -
  have d: "distinct (ids_of c)"
    using assms by (rule cart_reachable_distinct)
  from lines_of_add_item [OF d, of p "q1 + q2"]
  have "\<exists>ci. lines_of (add_item c p (q1 + q2)) (pid p) = [ci] \<and>
             qty ci = cart_qty c (pid p) + q1 + q2"
    by (simp add: add.assoc)
  with d show ?thesis by (simp add: add_item_twice)
qed

theorem add_item_merge_witness:
  "cart_reachable \<lparr>items = []\<rparr> \<and>
   add_item (add_item \<lparr>items = []\<rparr> (Product apple_row) 1) (Product apple_row) 2 =
     \<lparr>items = [CartItem (Product apple_row) 3]\<rparr> \<and>
   cart_qty \<lparr>items = []\<rparr> (pid (Product apple_row)) = 0"
proof -
  have r: "cart_reachable \<lparr>items = []\<rparr>" by (rule cart_reachable.init)
  from add_item_merge [OF r, of "Product apple_row" 1 2]
  have "add_item (add_item \<lparr>items = []\<rparr> (Product apple_row) 1) (Product apple_row) 2 =
          add_item \<lparr>items = []\<rparr> (Product apple_row) (1 + 2)"
    by simp
  with r show ?thesis
    by (simp add: add_item_def cart_qty_def lines_of_def)
qed

subsection \<open>Totals\<close>



subsection \<open>Stock adjustment\<close>

text \<open>
  C2, as stated: a call whose delta would make the stock negative reports
  \<^verbatim>\<open>InsufficientStock\<close> to the caller. It does not: with two apples in stock,
  \<^verbatim>\<open>adjust_stock(1, -3)\<close> returns normally, exactly as \<^verbatim>\<open>adjust_stock(1, -1)\<close> does,
  and nothing tells the caller that the first changed no row.
\<close>

theorem adjust_stock_guarded_counterexample:
  "stock_of (view shop) 1 = Some 2 \<and>
   fst (adjust_stock shop 1 (- 3)) = Inr () \<and>
   fst (adjust_stock shop 1 (- 1)) = Inr () \<and>
   stock_of (view (snd (adjust_stock shop 1 (- 3)))) 1 = Some 2"
  by (simp add: adjust_stock_def execute_def commit_def admit_def update_stock_def
      sqlite_add_def in64_def stock_of_def shop_defs)

text \<open>
  C2, amended: \<^verbatim>\<open>adjust_stock(id, delta)\<close> never reports a shortfall: it raises no
  \<^verbatim>\<open>ValueError\<close>, and when the storage raises nothing and the id and the delta fit in 64
  bits it returns normally (\<^verbatim>\<open>None\<close>). It sets the product's stock to SQLite's sum of
  stock and delta if and only if that sum is \<open>\<ge> 0\<close>; the sum is \<open>stock + delta\<close> as long
  as the stock and the sum are below \<open>2 ^ 63\<close>, and the sum of the two as binary64
  numbers beyond (a stock of 2 and a delta of \<open>2 ^ 63 - 1\<close> give \<open>2 ^ 63\<close>). When the sum
  is negative, or when no product has the id, the call changes no row: the tables the
  connection sees are as before. It commits all the same, so that changes an earlier
  statement left pending on the connection become durable. No other product's stock
  changes. An id or a delta outside 64 bits makes the call raise \<^verbatim>\<open>OverflowError\<close> and do
  nothing. Consequently, after every sequence of \<^verbatim>\<open>adjust_stock\<close> calls that starts from
  non-negative stock, every product's stock is non-negative (whether or not a call
  raises on the way).
\<close>

theorem adjust_stock_guarded:
  "fst (adjust_stock c product_id delta) \<noteq> Inl (ValueError msg) \<and>
   (fail_after c = None \<and> primary_key (view c) \<and> in64 product_id \<and> in64 delta \<longrightarrow>
      (\<exists>c'. adjust_stock c product_id delta = (Inr (), c') \<and>
         durable c' = view c' \<and>
         (\<forall>s. stock_of (view c) product_id = Some s \<longrightarrow>
              stock_of (view c') product_id =
                Some (if 0 \<le> sqlite_add s delta then sqlite_add s delta else s) \<and>
              (sqlite_add s delta < 0 \<longrightarrow> view c' = view c) \<and>
              (s < 2 ^ 63 \<and> s + delta < 2 ^ 63 \<longrightarrow> sqlite_add s delta = s + delta)) \<and>
         (stock_of (view c) product_id = None \<longrightarrow> view c' = view c) \<and>
         (\<forall>j. j \<noteq> product_id \<longrightarrow> stock_of (view c') j = stock_of (view c) j))) \<and>
   (\<not> (in64 product_id \<and> in64 delta) \<longrightarrow>
      adjust_stock c product_id delta = (Inl OverflowError, c)) \<and>
   (stock_nonneg (view c) \<longrightarrow> stock_nonneg (view (adjust_stock_calls c calls)))"
proof -
  let ?c' = "c\<lparr>view := update_stock product_id delta (view c),
               durable := update_stock product_id delta (view c)\<rparr>"
  have quiet: "fst (adjust_stock c product_id delta) \<noteq> Inl (ValueError msg)"
    using adjust_stock_error [of c product_id delta "ValueError msg"] by auto
  have guarded: "\<exists>c'. adjust_stock c product_id delta = (Inr (), c') \<and>
         durable c' = view c' \<and>
         (\<forall>s. stock_of (view c) product_id = Some s \<longrightarrow>
              stock_of (view c') product_id =
                Some (if 0 \<le> sqlite_add s delta then sqlite_add s delta else s) \<and>
              (sqlite_add s delta < 0 \<longrightarrow> view c' = view c) \<and>
              (s < 2 ^ 63 \<and> s + delta < 2 ^ 63 \<longrightarrow> sqlite_add s delta = s + delta)) \<and>
         (stock_of (view c) product_id = None \<longrightarrow> view c' = view c) \<and>
         (\<forall>j. j \<noteq> product_id \<longrightarrow> stock_of (view c') j = stock_of (view c) j)"
    if h: "fail_after c = None" and k: "primary_key (view c)"
      and b: "in64 product_id" "in64 delta"
  proof -
    have run: "adjust_stock c product_id delta = (Inr (), ?c')"
      using h b(2) b(1) by (rule adjust_stock_healthy)
    have dur: "durable ?c' = view ?c'" by simp
    have present: "\<forall>s. stock_of (view c) product_id = Some s \<longrightarrow>
            stock_of (view ?c') product_id =
              Some (if 0 \<le> sqlite_add s delta then sqlite_add s delta else s) \<and>
            (sqlite_add s delta < 0 \<longrightarrow> view ?c' = view c) \<and>
            (s < 2 ^ 63 \<and> s + delta < 2 ^ 63 \<longrightarrow> sqlite_add s delta = s + delta)"
      using k by (auto simp: stock_of_update_stock update_stock_noop sqlite_add_exact)
    have absent: "stock_of (view c) product_id = None \<longrightarrow> view ?c' = view c"
      by (simp add: update_stock_absent)
    have others: "\<forall>j. j \<noteq> product_id \<longrightarrow> stock_of (view ?c') j = stock_of (view c) j"
      by (auto simp: stock_of_update_stock option.map_ident map_option_cong)
    show ?thesis
      by (rule exI [of _ ?c']) (intro conjI run dur present absent others)
  qed
  have unbound: "\<not> (in64 product_id \<and> in64 delta) \<longrightarrow>
      adjust_stock c product_id delta = (Inl OverflowError, c)"
    using adjust_stock_unbound [of delta product_id c] by blast
  have "stock_nonneg (view c) \<longrightarrow> stock_nonneg (view (adjust_stock_calls c calls))"
    by (simp add: adjust_stock_calls_nonneg)
  with quiet guarded unbound show ?thesis by blast
qed

theorem adjust_stock_guarded_witness:
  "fail_after shop = None \<and> primary_key (view shop) \<and> stock_nonneg (view shop) \<and>
   stock_of (view shop) 1 = Some 2 \<and>
   stock_of (view (snd (adjust_stock shop 1 (- 1)))) 1 = Some 1 \<and>
   view (snd (adjust_stock shop 1 (- 3))) = view shop \<and>
   stock_of (view (snd (adjust_stock shop 1 (2 ^ 63 - 1)))) 1 = Some (2 ^ 63) \<and>
   adjust_stock shop 1 (2 ^ 63) = (Inl OverflowError, shop) \<and>
   durable (shop\<lparr>view := insert_sale ''t'' (Fin 5) shop_tables\<rparr>) = shop_tables \<and>
   durable (snd (adjust_stock (shop\<lparr>view := insert_sale ''t'' (Fin 5) shop_tables\<rparr>) 1 (- 3))) =
     insert_sale ''t'' (Fin 5) shop_tables \<and>
   stock_nonneg (view (adjust_stock_calls shop [(1, - 1), (1, - 3), (2, 4)]))"
proof -
  let ?p = "shop\<lparr>view := insert_sale ''t'' (Fin 5) shop_tables\<rparr>"
  have h: "fail_after shop = None" "primary_key (view shop)" "stock_nonneg (view shop)"
    "stock_of (view shop) 1 = Some 2"
    by (simp_all add: primary_key_def stock_nonneg_def stock_of_def shop_defs)
  have hp: "fail_after ?p = None" "primary_key (view ?p)" "stock_of (view ?p) 1 = Some 2"
    "durable ?p = shop_tables"
    by (simp_all add: primary_key_def stock_of_def insert_sale_def shop_defs)
  have b: "in64 1" "in64 (- 1)" "in64 (- 3)" "in64 (2 ^ 63 - 1)" "\<not> in64 (2 ^ 63)"
    by (simp_all add: in64_def)
  have s: "sqlite_add 2 (- 1) = 1" "sqlite_add 2 (- 3) = - 1"
    by (simp_all add: sqlite_add_def)
  from adjust_stock_guarded [of shop 1 "- 1" "[]" "[(1, - 1), (1, - 3), (2, 4)]"] h b s
  have 1: "stock_of (view (snd (adjust_stock shop 1 (- 1)))) 1 = Some 1"
    and 2: "stock_nonneg (view (adjust_stock_calls shop [(1, - 1), (1, - 3), (2, 4)]))"
    by auto
  from adjust_stock_guarded [of shop 1 "- 3" "[]" "[]"] h b s
  have 3: "view (snd (adjust_stock shop 1 (- 3))) = view shop"
    by auto
  from adjust_stock_guarded [of shop 1 "2 ^ 63 - 1" "[]" "[]"] h b sqlite_add_overflow_example
  have 4: "stock_of (view (snd (adjust_stock shop 1 (2 ^ 63 - 1)))) 1 = Some (2 ^ 63)"
    by auto
  from adjust_stock_guarded [of shop 1 "2 ^ 63" "[]" "[]"] b
  have 5: "adjust_stock shop 1 (2 ^ 63) = (Inl OverflowError, shop)"
    by simp
  from adjust_stock_guarded [of ?p 1 "- 3" "[]" "[]"] hp b s
  have 6: "durable (snd (adjust_stock ?p 1 (- 3))) = insert_sale ''t'' (Fin 5) shop_tables"
    by auto
  from 1 2 3 4 5 6 h hp show ?thesis by simp
qed

subsection \<open>Recording a sale\<close>




subsection \<open>Checkout\<close>




text \<open>
  C7: after every successful \<^verbatim>\<open>checkout\<close> the cart holds no lines and its subtotal is 0,
  and the receipt returned holds, for each line that was in the cart and in the cart's
  order, the product name, the quantity, the unit price and the line total, together
  with the subtotal, the total, the discount and the timestamp read for the receipt.
\<close>

theorem checkout_success:
  assumes "fst (checkout sys discount tax_rate ts_sale ts_receipt) = Inr r"
  shows "items (cart (snd (checkout sys discount tax_rate ts_sale ts_receipt))) = [] \<and>
         subtotal (cart (snd (checkout sys discount tax_rate ts_sale ts_receipt))) = Inr (Fin 0) \<and>
         map (\<lambda>(n, q, p, t). (n, q, p, Inr t)) (r_items r) =
           map (\<lambda>ci. (name (product ci), qty ci, price (product ci), line_total ci))
             (items (cart sys)) \<and>
         subtotal (cart sys) = Inr (r_subtotal r) \<and>
         r_total r = fmax (round2 (fsub (r_subtotal r) discount)) (Fin 0) \<and>
         r_discount r = discount \<and>
         r_timestamp r = ts_receipt"
proof -
  from checkout_Inr [OF assms] have
    c: "cart (snd (checkout sys discount tax_rate ts_sale ts_receipt)) = clear (cart sys)"
    and l: "traverse receipt_line (items (cart sys)) = Inr (r_items r)"
    and f: "subtotal (cart sys) = Inr (r_subtotal r)"
      "r_total r = fmax (round2 (fsub (r_subtotal r) discount)) (Fin 0)"
      "r_discount r = discount" "r_timestamp r = ts_receipt"
    by simp_all
  from c have "items (cart (snd (checkout sys discount tax_rate ts_sale ts_receipt))) = []"
    and "subtotal (cart (snd (checkout sys discount tax_rate ts_sale ts_receipt))) = Inr (Fin 0)"
    by (simp_all add: subtotal_empty) (simp add: clear_def)
  with traverse_receipt_line [OF l] f show ?thesis by simp
qed

theorem checkout_success_witness:
  "fst (checkout till_scanned (Fin 1) (Fin 0) ''t1'' ''t2'') =
     Inr \<lparr>r_items = [(''Apple'', 2, Fin (5 / 2), Fin 5)], r_subtotal = Fin 5, r_taxed = Fin 5,
          r_discount = Fin 1, r_total = Fin 4, r_timestamp = ''t2''\<rparr> \<and>
   items (cart (snd (checkout till_scanned (Fin 1) (Fin 0) ''t1'' ''t2''))) = [] \<and>
   subtotal (cart (snd (checkout till_scanned (Fin 1) (Fin 0) ''t1'' ''t2''))) = Inr (Fin 0) \<and>
   subtotal (cart till_scanned) = Inr (Fin 5) \<and>
   fmax (round2 (fsub (Fin 5) (Fin 1))) (Fin 0) = Fin 4"
proof -
  have f: "fst (checkout till_scanned (Fin 1) (Fin 0) ''t1'' ''t2'') =
     Inr \<lparr>r_items = [(''Apple'', 2, Fin (5 / 2), Fin 5)], r_subtotal = Fin 5, r_taxed = Fin 5,
          r_discount = Fin 1, r_total = Fin 4, r_timestamp = ''t2''\<rparr>"
    by (simp add: till_scanned_eq) (simp add: run_defs float_defs shop_defs)
  from checkout_success [OF f] f show ?thesis by simp
qed

subsection \<open>Scanning\<close>

text \<open>
  C4: \<^verbatim>\<open>scan_and_add(barcode, quantity)\<close> fails with \<^verbatim>\<open>ValueError("Product not found.")\<close>
  when no product has the barcode, fails with \<^verbatim>\<open>ValueError("Not enough stock.")\<close> when the
  quantity is greater than the stock of the product found, and otherwise adds the product
  with that quantity to the cart (the storage raising nothing); on every failure the cart
  is unchanged. The two \<^verbatim>\<open>ValueError\<close>s are the code's \<^verbatim>\<open>ProductNotFound\<close> and
  \<^verbatim>\<open>InsufficientStock\<close>.
\<close>

theorem scan_and_add_outcomes:
  "(fst (scan_and_add sys bc q) = Inl e \<longrightarrow> cart (snd (scan_and_add sys bc q)) = cart sys) \<and>
   (fail_after (db sys) = None \<longrightarrow>
      (bc \<notin> set (map row_barcode (products (view (db sys)))) \<longrightarrow>
         scan_and_add sys bc q = (Inl (ValueError ''Product not found.''), sys)) \<and>
      (\<forall>row. find_barcode sys bc = Some row \<longrightarrow>
         (quantity_in_stock row < q \<longrightarrow>
            scan_and_add sys bc q = (Inl (ValueError ''Not enough stock.''), sys)) \<and>
         (q \<le> quantity_in_stock row \<longrightarrow>
            scan_and_add sys bc q =
              (Inr (Product row, q), sys\<lparr>cart := add_item (cart sys) (Product row) q\<rparr>))))"
proof -
  have "fst (scan_and_add sys bc q) = Inl e \<longrightarrow> cart (snd (scan_and_add sys bc q)) = cart sys"
    using scan_and_add_Inl [of sys bc q e] by blast
  moreover have "fail_after (db sys) = None \<longrightarrow>
      (bc \<notin> set (map row_barcode (products (view (db sys)))) \<longrightarrow>
         scan_and_add sys bc q = (Inl (ValueError ''Product not found.''), sys)) \<and>
      (\<forall>row. find_barcode sys bc = Some row \<longrightarrow>
         (quantity_in_stock row < q \<longrightarrow>
            scan_and_add sys bc q = (Inl (ValueError ''Not enough stock.''), sys)) \<and>
         (q \<le> quantity_in_stock row \<longrightarrow>
            scan_and_add sys bc q =
              (Inr (Product row, q), sys\<lparr>cart := add_item (cart sys) (Product row) q\<rparr>)))"
  proof
    assume h: "fail_after (db sys) = None"
    have "bc \<notin> set (map row_barcode (products (view (db sys)))) \<longrightarrow>
         scan_and_add sys bc q = (Inl (ValueError ''Product not found.''), sys)"
      using find_barcode_None [of sys bc] by (auto simp: scan_and_add_healthy [OF h])
    moreover have "\<forall>row. find_barcode sys bc = Some row \<longrightarrow>
         (quantity_in_stock row < q \<longrightarrow>
            scan_and_add sys bc q = (Inl (ValueError ''Not enough stock.''), sys)) \<and>
         (q \<le> quantity_in_stock row \<longrightarrow>
            scan_and_add sys bc q =
              (Inr (Product row, q), sys\<lparr>cart := add_item (cart sys) (Product row) q\<rparr>))"
      by (simp add: scan_and_add_healthy [OF h])
    ultimately show "(bc \<notin> set (map row_barcode (products (view (db sys)))) \<longrightarrow>
         scan_and_add sys bc q = (Inl (ValueError ''Product not found.''), sys)) \<and>
      (\<forall>row. find_barcode sys bc = Some row \<longrightarrow>
         (quantity_in_stock row < q \<longrightarrow>
            scan_and_add sys bc q = (Inl (ValueError ''Not enough stock.''), sys)) \<and>
         (q \<le> quantity_in_stock row \<longrightarrow>
            scan_and_add sys bc q =
              (Inr (Product row, q), sys\<lparr>cart := add_item (cart sys) (Product row) q\<rparr>)))"
      by blast
  qed
  ultimately show ?thesis by blast
qed

theorem scan_and_add_outcomes_witness:
  "fail_after (db till) = None \<and>
   ''ZZ'' \<notin> set (map row_barcode (products (view (db till)))) \<and>
   scan_and_add till ''ZZ'' 1 = (Inl (ValueError ''Product not found.''), till) \<and>
   find_barcode till ''A1'' = Some apple_row \<and> quantity_in_stock apple_row = 2 \<and>
   scan_and_add till ''A1'' 3 = (Inl (ValueError ''Not enough stock.''), till) \<and>
   scan_and_add till ''A1'' 2 =
     (Inr (Product apple_row, 2), till\<lparr>cart := \<lparr>items = [CartItem (Product apple_row) 2]\<rparr>\<rparr>) \<and>
   cart (snd (scan_and_add till ''A1'' 3)) = cart till"
proof -
  have h: "fail_after (db till) = None"
    "''ZZ'' \<notin> set (map row_barcode (products (view (db till))))"
    "find_barcode till ''A1'' = Some apple_row" "quantity_in_stock apple_row = 2"
    by (simp_all add: find_barcode_def shop_defs)
  have a: "add_item (cart till) (Product apple_row) 2 = \<lparr>items = [CartItem (Product apple_row) 2]\<rparr>"
    by (simp add: add_item_def shop_defs)
  from scan_and_add_outcomes [of till "''ZZ''" 1 OperationalError] h
  have 1: "scan_and_add till ''ZZ'' 1 = (Inl (ValueError ''Product not found.''), till)"
    by blast
  from scan_and_add_outcomes [of till "''A1''" 3 "ValueError ''Not enough stock.''"] h
  have 2: "scan_and_add till ''A1'' 3 = (Inl (ValueError ''Not enough stock.''), till)"
    by simp
  from scan_and_add_outcomes [of till "''A1''" 2 OperationalError] h a
  have 3: "scan_and_add till ''A1'' 2 =
     (Inr (Product apple_row, 2), till\<lparr>cart := \<lparr>items = [CartItem (Product apple_row) 2]\<rparr>\<rparr>)"
    by simp
  from 1 2 3 h show ?thesis by simp
qed

text \<open>
  C9: the stock check of \<^verbatim>\<open>scan_and_add\<close> compares the quantity asked for with the
  product's stock only, not with what the cart already holds: for every product with
  stock \<open>s \<ge> 1\<close>, two successive \<^verbatim>\<open>scan_and_add\<close> calls for its barcode with quantity
  \<open>s\<close> both succeed (the storage raising nothing) and leave a single line for the
  product, whose quantity is \<open>2 * s\<close> more than what the cart held for it before; in a
  cart that had no line for it, that is one appended line of quantity \<open>2 * s\<close>, more
  than the stock \<open>s\<close>. The database is not changed by the two calls.
\<close>

theorem scan_and_add_ignores_cart:
  assumes h: "fail_after (db sys) = None"
    and f: "find_barcode sys bc = Some row"
    and s: "quantity_in_stock row = s" "1 \<le> s"
    and r: "cart_reachable (cart sys)"
  shows "\<exists>sys1 sys2.
           scan_and_add sys bc s = (Inr (Product row, s), sys1) \<and>
           scan_and_add sys1 bc s = (Inr (Product row, s), sys2) \<and>
           db sys2 = db sys \<and>
           (\<exists>ci. lines_of (cart sys2) (row_id row) = [ci] \<and>
                 qty ci = cart_qty (cart sys) (row_id row) + 2 * s) \<and>
           (row_id row \<notin> set (ids_of (cart sys)) \<longrightarrow>
              items (cart sys2) = items (cart sys) @ [CartItem (Product row) (2 * s)]) \<and>
           s < 2 * s"
proof -
  let ?p = "Product row"
  let ?sys1 = "sys\<lparr>cart := add_item (cart sys) ?p s\<rparr>"
  let ?sys2 = "?sys1\<lparr>cart := add_item (cart ?sys1) ?p s\<rparr>"
  have pid: "pid ?p = row_id row" by (simp add: Product_def)
  have 1: "scan_and_add sys bc s = (Inr (?p, s), ?sys1)"
    using f s by (simp add: scan_and_add_healthy [OF h])
  have h1: "fail_after (db ?sys1) = None" using h by simp
  have f1: "find_barcode ?sys1 bc = Some row" using f by (simp add: find_barcode_def)
  have 2: "scan_and_add ?sys1 bc s = (Inr (?p, s), ?sys2)"
    using f1 s by (simp add: scan_and_add_healthy [OF h1])
  have 3: "db ?sys2 = db sys" by simp
  have c2: "cart ?sys2 = add_item (cart sys) ?p (2 * s)"
    by (simp add: add_item_twice)
  have d: "distinct (ids_of (cart sys))"
    using r by (rule cart_reachable_distinct)
  from lines_of_add_item [OF d, of ?p "2 * s"] pid c2
  have 4: "\<exists>ci. lines_of (cart ?sys2) (row_id row) = [ci] \<and>
                 qty ci = cart_qty (cart sys) (row_id row) + 2 * s"
    by simp
  have 5: "row_id row \<notin> set (ids_of (cart sys)) \<longrightarrow>
              items (cart ?sys2) = items (cart sys) @ [CartItem ?p (2 * s)]"
  proof
    assume "row_id row \<notin> set (ids_of (cart sys))"
    with pid have "add_item (cart sys) ?p (2 * s) = (cart sys)\<lparr>items := items (cart sys) @ [CartItem ?p (2 * s)]\<rparr>"
      by (simp add: add_item_absent)
    with c2 show "items (cart ?sys2) = items (cart sys) @ [CartItem ?p (2 * s)]"
      by simp
  qed
  from s(2) have 6: "s < 2 * s" by simp
  show ?thesis
    by (rule exI [of _ ?sys1], rule exI [of _ ?sys2]) (intro conjI 1 2 3 4 5 6)
qed

theorem scan_and_add_ignores_cart_witness:
  "fail_after (db till) = None \<and> find_barcode till ''A1'' = Some apple_row \<and>
   quantity_in_stock apple_row = 2 \<and> cart_reachable (cart till) \<and>
   row_id apple_row \<notin> set (ids_of (cart till)) \<and>
   fst (scan_and_add till ''A1'' 2) = Inr (Product apple_row, 2) \<and>
   fst (scan_and_add (snd (scan_and_add till ''A1'' 2)) ''A1'' 2) = Inr (Product apple_row, 2) \<and>
   items (cart (snd (scan_and_add (snd (scan_and_add till ''A1'' 2)) ''A1'' 2))) =
     [CartItem (Product apple_row) 4]"
proof -
  have h: "fail_after (db till) = None" "find_barcode till ''A1'' = Some apple_row"
    "quantity_in_stock apple_row = 2" "(1::int) \<le> 2"
    by (simp_all add: find_barcode_def shop_defs)
  have r: "cart_reachable (cart till)"
    using cart_reachable.init by (simp add: till_def)
  have a: "row_id apple_row \<notin> set (ids_of (cart till))"
    by (simp add: ids_of_def till_def)
  from scan_and_add_ignores_cart [OF h r] a obtain sys1 sys2 where
    "scan_and_add till ''A1'' 2 = (Inr (Product apple_row, 2), sys1)"
    "scan_and_add sys1 ''A1'' 2 = (Inr (Product apple_row, 2), sys2)"
    "items (cart sys2) = items (cart till) @ [CartItem (Product apple_row) (2 * 2)]"
    by blast
  with h r a show ?thesis by (simp add: till_def)
qed

subsection \<open>Non-positive quantities\<close>

text \<open>
  C8, as stated: a cart operation given a quantity \<open>\<le> 0\<close> is rejected with
  \<^verbatim>\<open>InvalidQuantity\<close> and leaves the cart unchanged. It is not: \<^verbatim>\<open>add_item\<close> with quantity 0
  puts a line of quantity 0 into the empty cart, and \<^verbatim>\<open>scan_and_add\<close> with quantity -2
  succeeds and puts a line of quantity -2 into it.
\<close>

theorem nonpositive_quantity_counterexample:
  "add_item \<lparr>items = []\<rparr> (Product apple_row) 0 = \<lparr>items = [CartItem (Product apple_row) 0]\<rparr> \<and>
   scan_and_add till ''A1'' (- 2) =
     (Inr (Product apple_row, - 2), till\<lparr>cart := \<lparr>items = [CartItem (Product apple_row) (- 2)]\<rparr>\<rparr>) \<and>
   cart till = \<lparr>items = []\<rparr>"
  by (simp add: run_defs shop_defs)

text \<open>
  C8, amended: \<^verbatim>\<open>Cart.add_item\<close> and \<^verbatim>\<open>scan_and_add\<close> do not check the sign of the
  quantity, and no \<^verbatim>\<open>InvalidQuantity\<close> exists. For a product found by its barcode whose
  stock is not negative, \<^verbatim>\<open>scan_and_add\<close> with a quantity \<open>q \<le> 0\<close> succeeds and merges
  \<open>q\<close> into the cart, whose quantity for the product changes by \<open>q\<close>, so a line's
  quantity can be zero or negative. The one rejection of a non-positive quantity is in
  the user interface: \<^verbatim>\<open>_add_to_cart\<close> shows a warning and returns before it calls
  \<^verbatim>\<open>scan_and_add\<close>, leaving cart and database as they were.
\<close>

theorem nonpositive_quantity_accepted:
  assumes "fail_after (db sys) = None" and "find_barcode sys bc = Some row"
    and "q \<le> 0" and "0 \<le> quantity_in_stock row" and "cart_reachable (cart sys)"
  shows "scan_and_add sys bc q =
           (Inr (Product row, q), sys\<lparr>cart := add_item (cart sys) (Product row) q\<rparr>) \<and>
         cart_qty (add_item (cart sys) (Product row) q) (row_id row) =
           cart_qty (cart sys) (row_id row) + q \<and>
         snd (add_to_cart sys bc q) = sys \<and>
         (\<exists>msg. fst (add_to_cart sys bc q) = Warning msg)"
proof -
  have "scan_and_add sys bc q =
           (Inr (Product row, q), sys\<lparr>cart := add_item (cart sys) (Product row) q\<rparr>)"
    using assms(2-4) by (simp add: scan_and_add_healthy [OF assms(1)])
  moreover have "cart_qty (add_item (cart sys) (Product row) q) (row_id row) =
           cart_qty (cart sys) (row_id row) + q"
    using cart_qty_add_item [OF cart_reachable_distinct [OF assms(5)], of "Product row" q]
    by (simp add: Product_def)
  moreover have "snd (add_to_cart sys bc q) = sys \<and> (\<exists>msg. fst (add_to_cart sys bc q) = Warning msg)"
    using assms(3) by (simp add: add_to_cart_def)
  ultimately show ?thesis by blast
qed

theorem nonpositive_quantity_accepted_witness:
  "fail_after (db till) = None \<and> find_barcode till ''A1'' = Some apple_row \<and>
   0 \<le> quantity_in_stock apple_row \<and> cart_reachable (cart till) \<and>
   scan_and_add till ''A1'' (- 2) =
     (Inr (Product apple_row, - 2), till\<lparr>cart := \<lparr>items = [CartItem (Product apple_row) (- 2)]\<rparr>\<rparr>) \<and>
   cart_qty \<lparr>items = [CartItem (Product apple_row) (- 2)]\<rparr> 1 = - 2 \<and>
   add_to_cart till ''A1'' (- 2) = (Warning ''Quantity must be greater than zero'', till)"
proof -
  have h: "fail_after (db till) = None" "find_barcode till ''A1'' = Some apple_row"
    "0 \<le> quantity_in_stock apple_row"
    by (simp_all add: find_barcode_def shop_defs)
  have r: "cart_reachable (cart till)"
    using cart_reachable.init by (simp add: till_def)
  have a: "add_item (cart till) (Product apple_row) (- 2) =
      \<lparr>items = [CartItem (Product apple_row) (- 2)]\<rparr>" "row_id apple_row = 1"
      "cart_qty (cart till) 1 = 0"
    by (simp_all add: add_item_def cart_qty_def lines_of_def shop_defs)
  have u: "add_to_cart till ''A1'' (- 2) = (Warning ''Quantity must be greater than zero'', till)"
    by (simp add: add_to_cart_def)
  from nonpositive_quantity_accepted [OF h(1,2) _ h(3) r, of "- 2"] a
  have "scan_and_add till ''A1'' (- 2) =
     (Inr (Product apple_row, - 2), till\<lparr>cart := \<lparr>items = [CartItem (Product apple_row) (- 2)]\<rparr>\<rparr>)"
    and "cart_qty \<lparr>items = [CartItem (Product apple_row) (- 2)]\<rparr> 1 = - 2"
    by simp_all
  with h r u show ?thesis by simp
qed

subsection \<open>Sale details after a product is deleted\<close>

text \<open>
  C10: \<^verbatim>\<open>get_sale_details\<close> joins the line items to \<^verbatim>\<open>products\<close> with an inner join. For
  every sale and every product id, after \<^verbatim>\<open>delete_product\<close> has removed the product (the
  storage raising nothing), the \<^verbatim>\<open>sale_items\<close> rows are all still stored, and
  \<^verbatim>\<open>get_sale_details\<close> returns for every sale the same header as before with the items it
  returned before minus those of the deleted product: the line item is left out, not
  returned with a dangling reference.
\<close>

theorem get_sale_details_after_delete:
  assumes "fail_after c = None"
  shows "\<exists>b c1. delete_product c product_id = (Inr b, c1) \<and>
           fail_after c1 = None \<and>
           sales (view c1) = sales (view c) \<and>
           sale_items (view c1) = sale_items (view c) \<and>
           filter (\<lambda>r. row_id r = product_id) (products (view c1)) = [] \<and>
           (\<forall>sale_id d. fst (get_sale_details c sale_id) = Inr (Some d) \<longrightarrow>
              fst (get_sale_details c1 sale_id) =
                Inr (Some (d\<lparr>sd_items := filter (\<lambda>j. j_product_id j \<noteq> product_id) (sd_items d)\<rparr>)))"
  using assms by (rule details_after_delete)

theorem get_sale_details_after_delete_witness:
  "fail_after shop_sold = None \<and>
   fst (get_sale_details shop_sold 1) =
     Inr (Some \<lparr>sd_sale = \<lparr>s_id = 1, s_timestamp = ''2024-05-01T10:00:00'', s_total = Fin (13 / 2)\<rparr>,
       sd_items =
         [\<lparr>j_sale_id = 1, j_product_id = 1, j_quantity = 1, j_line_total = Fin (5 / 2),
           j_name = ''Apple'', j_barcode = ''A1'', j_price = Fin (5 / 2)\<rparr>,
          \<lparr>j_sale_id = 1, j_product_id = 2, j_quantity = 1, j_line_total = Fin 4,
           j_name = ''Pear'', j_barcode = ''B2'', j_price = Fin 4\<rparr>]\<rparr>) \<and>
   fst (delete_product shop_sold 1) = Inr True \<and>
   map si_product_id (sale_items (view (snd (delete_product shop_sold 1)))) = [1, 2] \<and>
   fst (get_sale_details (snd (delete_product shop_sold 1)) 1) =
     Inr (Some \<lparr>sd_sale = \<lparr>s_id = 1, s_timestamp = ''2024-05-01T10:00:00'', s_total = Fin (13 / 2)\<rparr>,
       sd_items =
         [\<lparr>j_sale_id = 1, j_product_id = 2, j_quantity = 1, j_line_total = Fin 4,
           j_name = ''Pear'', j_barcode = ''B2'', j_price = Fin 4\<rparr>]\<rparr>)"
proof -
  have h: "fail_after shop_sold = None"
    by (simp add: shop_sold_eq shop_defs)
  have g: "fst (get_sale_details shop_sold 1) =
     Inr (Some \<lparr>sd_sale = \<lparr>s_id = 1, s_timestamp = ''2024-05-01T10:00:00'', s_total = Fin (13 / 2)\<rparr>,
       sd_items =
         [\<lparr>j_sale_id = 1, j_product_id = 1, j_quantity = 1, j_line_total = Fin (5 / 2),
           j_name = ''Apple'', j_barcode = ''A1'', j_price = Fin (5 / 2)\<rparr>,
          \<lparr>j_sale_id = 1, j_product_id = 2, j_quantity = 1, j_line_total = Fin 4,
           j_name = ''Pear'', j_barcode = ''B2'', j_price = Fin 4\<rparr>]\<rparr>)"
    by (simp add: shop_sold_eq) (simp add: run_defs shop_defs)
  have d: "fst (delete_product shop_sold 1) = Inr True"
    "map si_product_id (sale_items (view (snd (delete_product shop_sold 1)))) = [1, 2]"
    by (simp_all add: shop_sold_eq) (simp_all add: run_defs shop_defs)
  from get_sale_details_after_delete [OF h, of 1] obtain b c1 where c1:
    "delete_product shop_sold 1 = (Inr b, c1)"
    "\<forall>sale_id d. fst (get_sale_details shop_sold sale_id) = Inr (Some d) \<longrightarrow>
       fst (get_sale_details c1 sale_id) =
         Inr (Some (d\<lparr>sd_items := filter (\<lambda>j. j_product_id j \<noteq> 1) (sd_items d)\<rparr>))"
    by blast
  from c1(2) g have "fst (get_sale_details c1 1) =
     Inr (Some \<lparr>sd_sale = \<lparr>s_id = 1, s_timestamp = ''2024-05-01T10:00:00'', s_total = Fin (13 / 2)\<rparr>,
       sd_items =
         [\<lparr>j_sale_id = 1, j_product_id = 2, j_quantity = 1, j_line_total = Fin 4,
           j_name = ''Pear'', j_barcode = ''B2'', j_price = Fin 4\<rparr>]\<rparr>)"
    by simp
  with c1(1) h g d show ?thesis by simp
qed

end
